theory Spec2Isabelle
  imports Main
begin

section \<open>Platform functions used by the handlers\<close>

text \<open>
  The visitor register is a set of Express handlers over one SQL Server database.  The
  repository holds several iterations of the same server; the ones embedded here are
  the first iteration in \<^verbatim>\<open>server1.js\<close> (lines 1 to 417, prefix \<open>s1\<close>), the
  iteration in \<^verbatim>\<open>server8.js\<close> (prefix \<open>s8\<close>) and the iteration with transactions,
  audit log and rate limiting in \<^verbatim>\<open>unnamed/part_000\<close> (prefix \<open>p0\<close>).

  JavaScript strings are modelled as \<^typ>\<open>string\<close> (code units below 256), a request
  field that is \<^verbatim>\<open>undefined\<close> or \<^verbatim>\<open>null\<close> as \<^const>\<open>None\<close>.  Clock readings
  (\<^verbatim>\<open>new Date()\<close>, \<^verbatim>\<open>Date.now()\<close>, the store's \<^verbatim>\<open>GETDATE()\<close>) are
  milliseconds since the epoch and are inputs of the model, as are the outcomes of the
  calls that leave the process (mail, QR rendering, password hashing, storage errors).
\<close>

subsection \<open>Truthiness and defaults\<close>

definition falsy :: "string option \<Rightarrow> bool" where
  \<comment> \<open>\<^verbatim>\<open>!x\<close> for a string-valued field\<close>
  "falsy x = (case x of None \<Rightarrow> True | Some s \<Rightarrow> s = [])"

definition or_empty :: "string option \<Rightarrow> string" where
  \<comment> \<open>\<^verbatim>\<open>x || ''\<close>\<close>
  "or_empty x = (case x of None \<Rightarrow> [] | Some s \<Rightarrow> s)"

definition or_null :: "string option \<Rightarrow> string option" where
  \<comment> \<open>\<^verbatim>\<open>x || null\<close>\<close>
  "or_null x = (if falsy x then None else x)"

definition or_else :: "string option \<Rightarrow> string option \<Rightarrow> string option" where
  \<comment> \<open>\<^verbatim>\<open>x || y\<close>\<close>
  "or_else x y = (if falsy x then y else x)"

subsection \<open>Numbers and dates as text\<close>

definition digit_char :: "int \<Rightarrow> char" where
  "digit_char d = char_of (48 + d)"

function show_digits :: "int \<Rightarrow> string" where
  \<comment> \<open>the decimal digits of a number that is not negative\<close>
  "show_digits n =
     (if n < 10 then [digit_char n] else show_digits (n div 10) @ [digit_char (n mod 10)])"
  by pat_completeness auto
termination
  by (relation "measure nat") auto

declare show_digits.simps [simp del]

definition show_int :: "int \<Rightarrow> string" where
  "show_int i = (if i < 0 then CHR ''-'' # show_digits (- i) else show_digits i)"

definition pad_left :: "nat \<Rightarrow> string \<Rightarrow> string" where
  "pad_left w s = replicate (w - length s) CHR ''0'' @ s"

definition civil_from_days :: "int \<Rightarrow> int \<times> int \<times> int" where
  \<comment> \<open>year, month and day of the proleptic Gregorian calendar, from days since 1970-01-01\<close>
  "civil_from_days z0 =
     (let z = z0 + 719468;
          era = z div 146097;
          doe = z - era * 146097;
          yoe = (doe - doe div 1460 + doe div 36524 - doe div 146096) div 365;
          y = yoe + era * 400;
          doy = doe - (365 * yoe + yoe div 4 - yoe div 100);
          mp = (5 * doy + 2) div 153;
          d = doy - (153 * mp + 2) div 5 + 1;
          m = (if mp < 10 then mp + 3 else mp - 9)
      in (if m \<le> 2 then y + 1 else y, m, d))"

definition iso_year :: "int \<Rightarrow> string" where
  "iso_year y =
     (if 0 \<le> y \<and> y \<le> 9999 then pad_left 4 (show_digits y)
      else if y < 0 then CHR ''-'' # pad_left 6 (show_digits (- y))
      else CHR ''+'' # pad_left 6 (show_digits y))"

definition toISOString :: "int \<Rightarrow> string" where
  \<comment> \<open>\<^verbatim>\<open>Date.prototype.toISOString\<close> of a valid date\<close>
  "toISOString ms =
     (let r = ms mod 86400000 in
      case civil_from_days (ms div 86400000) of (y, m, d) \<Rightarrow>
        iso_year y @ ''-'' @ pad_left 2 (show_digits m) @ ''-'' @ pad_left 2 (show_digits d)
        @ ''T'' @ pad_left 2 (show_digits (r div 3600000))
        @ '':'' @ pad_left 2 (show_digits (r div 60000 mod 60))
        @ '':'' @ pad_left 2 (show_digits (r div 1000 mod 60))
        @ ''.'' @ pad_left 3 (show_digits (r mod 1000)) @ ''Z'')"

subsection \<open>JSON text of a flat object\<close>

text \<open>
  \<^verbatim>\<open>JSON.stringify\<close> of an object whose members are strings, in insertion order, and
  \<^verbatim>\<open>JSON.parse\<close> restricted to such objects.  An escape \<^verbatim>\<open>\uXXXX\<close> that names a code
  unit above 255 is outside the modelled strings and is refused.
\<close>

definition hex_char :: "nat \<Rightarrow> char" where
  "hex_char d = (if d < 10 then char_of (48 + d) else char_of (87 + d))"

definition hex_val :: "char \<Rightarrow> nat option" where
  "hex_val c =
     (let n = (of_char c :: nat) in
      if 48 \<le> n \<and> n \<le> 57 then Some (n - 48)
      else if 97 \<le> n \<and> n \<le> 102 then Some (n - 87)
      else if 65 \<le> n \<and> n \<le> 70 then Some (n - 55)
      else None)"

definition json_quote_char :: "char \<Rightarrow> string" where
  "json_quote_char c =
     (let n = (of_char c :: nat) in
      if n = 34 then [CHR 0x5C, CHR 0x22]
      else if n = 92 then [CHR 0x5C, CHR 0x5C]
      else if n = 8 then [CHR 0x5C, CHR ''b'']
      else if n = 12 then [CHR 0x5C, CHR ''f'']
      else if n = 10 then [CHR 0x5C, CHR ''n'']
      else if n = 13 then [CHR 0x5C, CHR ''r'']
      else if n = 9 then [CHR 0x5C, CHR ''t'']
      else if n < 32 then
        [CHR 0x5C, CHR ''u'', CHR ''0'', CHR ''0'', hex_char (n div 16), hex_char (n mod 16)]
      else [c])"

definition json_quote :: "string \<Rightarrow> string" where
  "json_quote s = CHR 0x22 # concat (map json_quote_char s) @ [CHR 0x22]"

definition stringify_member :: "string \<times> string \<Rightarrow> string" where
  "stringify_member kv = json_quote (fst kv) @ '':'' @ json_quote (snd kv)"

fun join_comma :: "string list \<Rightarrow> string" where
  "join_comma [] = []"
| "join_comma [x] = x"
| "join_comma (x # y # ys) = x @ '','' @ join_comma (y # ys)"

definition JSON_stringify :: "(string \<times> string) list \<Rightarrow> string" where
  "JSON_stringify kvs = ''{'' @ join_comma (map stringify_member kvs) @ ''}''"

definition unescape :: "char \<Rightarrow> char option" where
  "unescape e =
     (if e = CHR 0x22 then Some (CHR 0x22)
      else if e = CHR 0x5C then Some (CHR 0x5C)
      else if e = CHR ''/'' then Some (CHR ''/'')
      else if e = CHR ''b'' then Some (CHR 0x08)
      else if e = CHR ''f'' then Some (CHR 0x0C)
      else if e = CHR ''n'' then Some (CHR 0x0A)
      else if e = CHR ''r'' then Some (CHR 0x0D)
      else if e = CHR ''t'' then Some (CHR 0x09)
      else None)"

definition hex4 :: "char \<Rightarrow> char \<Rightarrow> char \<Rightarrow> char \<Rightarrow> char option" where
  "hex4 a b c d =
     (case hex_val a of None \<Rightarrow> None | Some x \<Rightarrow>
      case hex_val b of None \<Rightarrow> None | Some y \<Rightarrow>
      case hex_val c of None \<Rightarrow> None | Some z \<Rightarrow>
      case hex_val d of None \<Rightarrow> None | Some w \<Rightarrow>
        (let v = ((x * 16 + y) * 16 + z) * 16 + w in
         if v < 256 then Some (char_of v) else None))"

definition cons_fst :: "char \<Rightarrow> (string \<times> string) option \<Rightarrow> (string \<times> string) option" where
  "cons_fst c r = (case r of None \<Rightarrow> None | Some (s, t) \<Rightarrow> Some (c # s, t))"

fun parse_chars :: "string \<Rightarrow> (string \<times> string) option" where
  \<comment> \<open>the characters of a string literal after its opening quote, and the rest of the text\<close>
  "parse_chars [] = None"
| "parse_chars (c # cs) =
     (if c = CHR 0x22 then Some ([], cs)
      else if c = CHR 0x5C then
        (case cs of
           [] \<Rightarrow> None
         | e # r \<Rightarrow>
             if e = CHR ''u'' then
               (case r of
                  a # b # c2 # d # r' \<Rightarrow>
                    (case hex4 a b c2 d of
                       None \<Rightarrow> None
                     | Some ch \<Rightarrow> cons_fst ch (parse_chars r'))
                | _ \<Rightarrow> None)
             else
               (case unescape e of
                  None \<Rightarrow> None
                | Some ch \<Rightarrow> cons_fst ch (parse_chars r)))
      else if (of_char c :: nat) < 32 then None
      else cons_fst c (parse_chars cs))"

definition is_ws :: "char \<Rightarrow> bool" where
  "is_ws c = (c = CHR '' '' \<or> c = CHR 0x09 \<or> c = CHR 0x0A \<or> c = CHR 0x0D)"

definition skip_ws :: "string \<Rightarrow> string" where
  "skip_ws s = dropWhile is_ws s"

definition parse_string :: "string \<Rightarrow> (string \<times> string) option" where
  "parse_string s =
     (case skip_ws s of
        [] \<Rightarrow> None
      | c # cs \<Rightarrow> if c = CHR 0x22 then parse_chars cs else None)"

definition expect :: "char \<Rightarrow> string \<Rightarrow> string option" where
  "expect c s =
     (case skip_ws s of
        [] \<Rightarrow> None
      | d # r \<Rightarrow> if d = c then Some r else None)"

fun parse_members :: "nat \<Rightarrow> string \<Rightarrow> (string \<times> string) list option" where
  \<comment> \<open>the members after the opening brace; the first argument bounds their number\<close>
  "parse_members 0 s = None"
| "parse_members (Suc n) s =
     (case parse_string s of
        None \<Rightarrow> None
      | Some (k, r1) \<Rightarrow>
          (case expect (CHR '':'') r1 of
             None \<Rightarrow> None
           | Some r2 \<Rightarrow>
               (case parse_string r2 of
                  None \<Rightarrow> None
                | Some (v, r3) \<Rightarrow>
                    (case expect (CHR '','') r3 of
                       Some r4 \<Rightarrow> map_option ((#) (k, v)) (parse_members n r4)
                     | None \<Rightarrow>
                         (case expect (CHR ''}'') r3 of
                            None \<Rightarrow> None
                          | Some r4 \<Rightarrow> if skip_ws r4 = [] then Some [(k, v)] else None)))))"

definition JSON_parse :: "string \<Rightarrow> (string \<times> string) list option" where
  "JSON_parse s =
     (case expect (CHR ''{'') s of
        None \<Rightarrow> None
      | Some r \<Rightarrow>
          (case expect (CHR ''}'') r of
             Some r' \<Rightarrow> if skip_ws r' = [] then Some [] else None
           | None \<Rightarrow> parse_members (length s) r))"

definition member_of :: "(string \<times> string) list \<Rightarrow> string \<Rightarrow> string option" where
  \<comment> \<open>\<^verbatim>\<open>obj[k]\<close>: of two members with one key the later one is kept\<close>
  "member_of obj k = map_of (rev obj) k"

subsection \<open>Patterns of the validation\<close>

definition is_digit :: "char \<Rightarrow> bool" where
  "is_digit c = (48 \<le> (of_char c :: nat) \<and> (of_char c :: nat) \<le> 57)"

definition mobile_regex :: "string \<Rightarrow> bool" where
  \<comment> \<open>\<^verbatim>\<open>/^[0-9]{10}$/.test(s)\<close>\<close>
  "mobile_regex s = (length s = 10 \<and> list_all is_digit s)"

definition is_space :: "char \<Rightarrow> bool" where
  \<comment> \<open>the class \<^verbatim>\<open>\s\<close> below code unit 256\<close>
  "is_space c =
     (let n = (of_char c :: nat) in (9 \<le> n \<and> n \<le> 13) \<or> n = 32 \<or> n = 160)"

definition plain :: "char \<Rightarrow> bool" where
  \<comment> \<open>the class \<^verbatim>\<open>[^\s@]\<close>\<close>
  "plain c = (\<not> is_space c \<and> c \<noteq> CHR ''@'')"

definition emailRegex :: "string \<Rightarrow> bool" where
  \<comment> \<open>\<^verbatim>\<open>/^[^\s@]+@[^\s@]+\.[^\s@]+$/.test(s)\<close>: one \<^verbatim>\<open>@\<close>, no white space, and after the
      \<^verbatim>\<open>@\<close> a dot that is neither the first nor the last character\<close>
  "emailRegex s =
     (let before = takeWhile plain s; rest = dropWhile plain s in
      before \<noteq> [] \<and>
      (case rest of
         [] \<Rightarrow> False
       | c # after \<Rightarrow>
           c = CHR ''@'' \<and> list_all plain after \<and> 3 \<le> length after \<and>
           list_ex (\<lambda>x. x = CHR ''.'') (butlast (tl after))))"

section \<open>The store\<close>

text \<open>
  The tables \<^verbatim>\<open>vs_visitors\<close> and \<^verbatim>\<open>vs_users\<close> as \<^verbatim>\<open>createTables\<close> declares them.
  A table is the list of its rows in insertion order.  The column \<^verbatim>\<open>updated_at\<close>
  exists in the schema of \<^verbatim>\<open>part_000\<close> only; the other iterations never read or
  write it.  Text is compared code unit by code unit.
\<close>

record visitor_row =
  visitor_id :: int
  visitor_name :: string
  mobile :: "string option"
  host_employee :: "string option"
  host_email :: string
  purpose :: "string option"
  photo_base64 :: "string option"
  qr_code_data :: "string option"
  checkin_time :: int
  checkout_time :: "int option"
  status :: string
  created_by :: "string option"
  created_at :: int
  updated_at :: int

record user_row =
  user_id :: int
  username :: string
  email :: string
  password :: string
  role :: string
  is_active :: "bool option"
  last_login :: "int option"

record audit_row =
  audit_user :: int
  audit_action :: string
  audit_table :: string
  audit_record :: int

record db =
  visitors :: "visitor_row list"
  next_visitor_id :: int
  users :: "user_row list"
  audit_log :: "audit_row list"

record insert_values =
  iv_visitor_name :: "string option"
  iv_mobile :: "string option"
  iv_host_employee :: "string option"
  iv_host_email :: "string option"
  iv_purpose :: "string option"
  iv_photo_base64 :: "string option"
  iv_qr_code_data :: "string option"
  iv_created_by :: "string option"

definition insert_visitor :: "int \<Rightarrow> insert_values \<Rightarrow> db \<Rightarrow> (db \<times> visitor_row) option" where
  \<comment> \<open>\<^verbatim>\<open>INSERT INTO vs_visitors (...) OUTPUT INSERTED.id, INSERTED.checkin_time\<close> at store time
      \<open>now\<close>: the identity column numbers the row, \<^verbatim>\<open>checkin_time\<close>, \<^verbatim>\<open>status\<close>,
      \<^verbatim>\<open>created_at\<close> and \<^verbatim>\<open>updated_at\<close> take their column defaults, \<^verbatim>\<open>checkout_time\<close> stays
      \<^verbatim>\<open>NULL\<close>; a \<^verbatim>\<open>NULL\<close> in a \<^verbatim>\<open>NOT NULL\<close> column is refused\<close>
  "insert_visitor now v d =
     (case (iv_visitor_name v, iv_host_email v) of
        (Some n, Some e) \<Rightarrow>
          (let r = \<lparr> visitor_id = next_visitor_id d, visitor_name = n, mobile = iv_mobile v,
                     host_employee = iv_host_employee v, host_email = e,
                     purpose = iv_purpose v, photo_base64 = iv_photo_base64 v,
                     qr_code_data = iv_qr_code_data v, checkin_time = now,
                     checkout_time = None, status = ''checked_in'',
                     created_by = iv_created_by v, created_at = now, updated_at = now \<rparr>
           in Some (d\<lparr> visitors := visitors d @ [r], next_visitor_id := next_visitor_id d + 1 \<rparr>, r))
      | _ \<Rightarrow> None)"

definition select_visitor :: "int \<Rightarrow> db \<Rightarrow> visitor_row list" where
  \<comment> \<open>\<^verbatim>\<open>SELECT ... FROM vs_visitors WHERE id = @id\<close>\<close>
  "select_visitor i d = filter (\<lambda>r. visitor_id r = i) (visitors d)"

definition checkout_row :: "int \<Rightarrow> visitor_row \<Rightarrow> visitor_row" where
  \<comment> \<open>\<^verbatim>\<open>SET checkout_time = GETDATE(), status = 'checked_out'\<close>\<close>
  "checkout_row now r = r\<lparr> checkout_time := Some now, status := ''checked_out'' \<rparr>"

definition update_where :: "(visitor_row \<Rightarrow> bool) \<Rightarrow> (visitor_row \<Rightarrow> visitor_row) \<Rightarrow> db \<Rightarrow> db \<times> nat" where
  \<comment> \<open>\<^verbatim>\<open>UPDATE vs_visitors SET ... WHERE ...\<close> and its \<^verbatim>\<open>rowsAffected[0]\<close>\<close>
  "update_where c f d =
     (d\<lparr> visitors := map (\<lambda>r. if c r then f r else r) (visitors d) \<rparr>,
      length (filter c (visitors d)))"

definition checkout_blind :: "int \<Rightarrow> int \<Rightarrow> db \<Rightarrow> db \<times> nat" where
  \<comment> \<open>\<^verbatim>\<open>server1.js\<close>, first iteration: \<^verbatim>\<open>WHERE id = @id\<close>\<close>
  "checkout_blind now i d = update_where (\<lambda>r. visitor_id r = i) (checkout_row now) d"

definition checkout_conditional :: "int \<Rightarrow> int \<Rightarrow> db \<Rightarrow> db \<times> nat" where
  \<comment> \<open>\<^verbatim>\<open>server8.js\<close>: \<^verbatim>\<open>WHERE id = @id AND status = 'checked_in'\<close>\<close>
  "checkout_conditional now i d =
     update_where (\<lambda>r. visitor_id r = i \<and> status r = ''checked_in'') (checkout_row now) d"

definition checkout_conditional_p0 :: "int \<Rightarrow> int \<Rightarrow> db \<Rightarrow> db \<times> nat" where
  \<comment> \<open>\<^verbatim>\<open>part_000\<close>: the same statement, which also sets \<^verbatim>\<open>updated_at = GETDATE()\<close>\<close>
  "checkout_conditional_p0 now i d =
     update_where (\<lambda>r. visitor_id r = i \<and> status r = ''checked_in'')
       (\<lambda>r. (checkout_row now r)\<lparr> updated_at := now \<rparr>) d"

definition select_user :: "string \<Rightarrow> db \<Rightarrow> user_row list" where
  \<comment> \<open>\<^verbatim>\<open>SELECT ... FROM vs_users WHERE (username = @username OR email = @username)\<close>\<close>
  "select_user u d = filter (\<lambda>r. username r = u \<or> email r = u) (users d)"

definition select_active_user :: "string \<Rightarrow> db \<Rightarrow> user_row list" where
  \<comment> \<open>\<^verbatim>\<open>part_000\<close>: the same query with \<^verbatim>\<open>AND is_active = 1\<close>\<close>
  "select_active_user u d =
     filter (\<lambda>r. (username r = u \<or> email r = u) \<and> is_active r = Some True) (users d)"

definition touch_last_login :: "int \<Rightarrow> int \<Rightarrow> db \<Rightarrow> db" where
  \<comment> \<open>\<^verbatim>\<open>UPDATE vs_users SET last_login = GETDATE() WHERE id = @userId\<close>\<close>
  "touch_last_login now i d =
     d\<lparr> users := map (\<lambda>r. if user_id r = i then r\<lparr> last_login := Some now \<rparr> else r) (users d) \<rparr>"

definition logAudit :: "bool \<Rightarrow> int \<Rightarrow> string \<Rightarrow> string \<Rightarrow> int \<Rightarrow> db \<Rightarrow> db" where
  \<comment> \<open>\<^verbatim>\<open>logAudit\<close> appends to \<^verbatim>\<open>vs_audit_log\<close> on the pool, outside any transaction, and
      swallows its own failure (first argument); the snapshots and the caller's address
      are left out of the row\<close>
  "logAudit fails u a t i d =
     (if fails then d
      else d\<lparr> audit_log := audit_log d @
             [\<lparr> audit_user = u, audit_action = a, audit_table = t, audit_record = i \<rparr>] \<rparr>)"

section \<open>Requests, responses and the outside world\<close>

record principal =
  p_id :: int
  p_username :: string
  p_email :: "string option"
  p_role :: string

record created_visitor =
  cv_name :: string
  cv_host :: "string option"
  cv_checkinTime :: int
  cv_visitorId :: string

record checked_visitor =
  ck_id :: int
  ck_name :: string
  ck_host :: "string option"

record pagination =
  pg_page :: int
  pg_limit :: int
  pg_total :: int
  pg_pages :: int

datatype response =
    Err nat string "string option"
      \<comment> \<open>status, \<^verbatim>\<open>error\<close> and \<^verbatim>\<open>code\<close> (absent in the first iteration)\<close>
  | LoginOk principal principal
      \<comment> \<open>the claims signed into the token, and \<^verbatim>\<open>user\<close>\<close>
  | CreatedOk int string "created_visitor option"
      \<comment> \<open>\<^verbatim>\<open>id\<close>, \<^verbatim>\<open>qrCode\<close> and \<^verbatim>\<open>visitor\<close>\<close>
  | CheckedOutOk "string option" "checked_visitor option"
      \<comment> \<open>\<^verbatim>\<open>checkoutTime\<close> and \<^verbatim>\<open>visitor\<close>\<close>
  | UpdatedOk int
  | ListOk "visitor_row list" pagination

record env =
  date_now :: int
    \<comment> \<open>\<^verbatim>\<open>Date.now()\<close> in the QR pass id\<close>
  random36 :: string
    \<comment> \<open>\<^verbatim>\<open>Math.random().toString(36).substr(2, 9)\<close>\<close>
  new_date :: int
    \<comment> \<open>\<^verbatim>\<open>new Date()\<close> in the QR payload\<close>
  response_date :: int
    \<comment> \<open>\<^verbatim>\<open>new Date()\<close> taken for the check-out response\<close>
  getdate :: int
    \<comment> \<open>the store's \<^verbatim>\<open>GETDATE()\<close> as the driver returns it\<close>
  toDataURL :: "string \<Rightarrow> string option"
    \<comment> \<open>\<^verbatim>\<open>QRCode.toDataURL\<close>, \<^const>\<open>None\<close> when it rejects\<close>
  bcrypt_compare :: "string \<Rightarrow> string \<Rightarrow> bool"
  db_fails :: "nat \<Rightarrow> bool"
    \<comment> \<open>whether the \<open>k\<close>-th store call of the handler (in source order, from 0) throws\<close>
  audit_fails :: bool
  mail_build_throws :: bool
    \<comment> \<open>building \<^verbatim>\<open>mailOptions\<close> throws\<close>
  mail_send_rejects :: bool
    \<comment> \<open>the promise of \<^verbatim>\<open>transporter.sendMail\<close> rejects\<close>
  send_checkout_emails :: bool
    \<comment> \<open>\<^verbatim>\<open>process.env.SEND_CHECKOUT_EMAILS === 'true'\<close>\<close>
  sql_like :: "string \<Rightarrow> string \<Rightarrow> bool"
    \<comment> \<open>the store's \<^verbatim>\<open>value LIKE pattern\<close>, pattern first\<close>

datatype mail = NoMail | MailSent | MailBuildFailed | MailSendFailed

definition dispatch_mail :: "env \<Rightarrow> mail" where
  \<comment> \<open>\<^verbatim>\<open>try { build; transporter.sendMail(o).then(log).catch(log) } catch (e) { log }\<close>:
      the send is not awaited, either failure ends in the console\<close>
  "dispatch_mail e =
     (if mail_build_throws e then MailBuildFailed
      else if mail_send_rejects e then MailSendFailed
      else MailSent)"

section \<open>Login\<close>

definition dummy_hash :: string where
  "dummy_hash = ''$2b$10$dummyhashforpreventingtimingattacks''"

definition principal_of :: "user_row \<Rightarrow> principal" where
  "principal_of u =
     \<lparr> p_id = user_id u, p_username = username u, p_email = Some (email u), p_role = role u \<rparr>"

text \<open>
  A login handler returns the response, the store, and the list of the
  \<^verbatim>\<open>bcrypt.compare(password, hash)\<close> calls it made, as pairs of password and hash.
\<close>

definition s1_login :: "env \<Rightarrow> string option \<Rightarrow> string option \<Rightarrow> db \<Rightarrow> response \<times> db \<times> (string \<times> string) list" where
  \<comment> \<open>\<^verbatim>\<open>server1.js\<close> lines 148 to 181\<close>
  "s1_login e uname pw d =
     (if db_fails e 0 then (Err 500 ''err.message'' None, d, [])
      else
        (case (case uname of None \<Rightarrow> [] | Some u \<Rightarrow> select_user u d) of
           [] \<Rightarrow> (Err 401 ''Invalid credentials'' None, d, [])
         | user # _ \<Rightarrow>
             (case pw of
                None \<Rightarrow> (Err 500 ''data and hash arguments required'' None, d, [])
              | Some p \<Rightarrow>
                  if bcrypt_compare e p (password user)
                  then (LoginOk ((principal_of user)\<lparr> p_email := None \<rparr>)
                                ((principal_of user)\<lparr> p_email := None \<rparr>),
                        d, [(p, password user)])
                  else (Err 401 ''Invalid credentials'' None, d, [(p, password user)]))))"

definition s8_login :: "env \<Rightarrow> string option \<Rightarrow> string option \<Rightarrow> db \<Rightarrow> response \<times> db \<times> (string \<times> string) list" where
  \<comment> \<open>\<^verbatim>\<open>server8.js\<close> lines 982 to 1068\<close>
  "s8_login e uname pw d =
     (if falsy uname \<or> falsy pw
      then (Err 400 ''Username and password are required'' (Some ''MISSING_CREDENTIALS''), d, [])
      else if db_fails e 0 then (Err 500 ''Internal server error'' (Some ''INTERNAL_ERROR''), d, [])
      else
        (case select_user (or_empty uname) d of
           [] \<Rightarrow> (Err 401 ''Invalid credentials'' (Some ''INVALID_CREDENTIALS''), d,
                  [(or_empty pw, dummy_hash)])
         | user # _ \<Rightarrow>
             if is_active user = Some False
             then (Err 403 ''Account is disabled'' (Some ''ACCOUNT_DISABLED''), d, [])
             else if \<not> bcrypt_compare e (or_empty pw) (password user)
             then (Err 401 ''Invalid credentials'' (Some ''INVALID_CREDENTIALS''), d,
                   [(or_empty pw, password user)])
             else (LoginOk (principal_of user) (principal_of user),
                   (if db_fails e 1 then d else touch_last_login (getdate e) (user_id user) d),
                   [(or_empty pw, password user)])))"

definition p0_login :: "env \<Rightarrow> string option \<Rightarrow> string option \<Rightarrow> db \<Rightarrow> response \<times> db \<times> (string \<times> string) list" where
  \<comment> \<open>\<^verbatim>\<open>part_000\<close> lines 384 to 457\<close>
  "p0_login e uname pw d =
     (if falsy uname \<or> falsy pw
      then (Err 400 ''Username and password are required'' (Some ''MISSING_CREDENTIALS''), d, [])
      else if db_fails e 0 then (Err 500 ''Internal server error'' (Some ''INTERNAL_ERROR''), d, [])
      else
        (case select_active_user (or_empty uname) d of
           [] \<Rightarrow> (Err 401 ''Invalid credentials'' (Some ''INVALID_CREDENTIALS''), d,
                  [(or_empty pw, dummy_hash)])
         | user # _ \<Rightarrow>
             if \<not> bcrypt_compare e (or_empty pw) (password user)
             then (Err 401 ''Invalid credentials'' (Some ''INVALID_CREDENTIALS''), d,
                   [(or_empty pw, password user)])
             else if db_fails e 1
             then (Err 500 ''Internal server error'' (Some ''INTERNAL_ERROR''), d,
                   [(or_empty pw, password user)])
             else (LoginOk (principal_of user) (principal_of user),
                   logAudit (audit_fails e) (user_id user) ''LOGIN'' ''vs_users'' (user_id user)
                     (touch_last_login (getdate e) (user_id user) d),
                   [(or_empty pw, password user)])))"

section \<open>Check-in\<close>

text \<open>
  The handlers below are the route callbacks, entered after the middleware (token check,
  role check, rate limit, pool check) has let the request through.  A handler returns its
  response, the store it leaves behind, and what became of the notification mail.
\<close>

record visitor_fields =
  f_visitor_name :: "string option"
  f_mobile :: "string option"
  f_host_employee :: "string option"
  f_host_email :: "string option"
  f_purpose :: "string option"
  f_photo_base64 :: "string option"

definition optional_member :: "string \<Rightarrow> string option \<Rightarrow> (string \<times> string) list" where
  \<comment> \<open>\<^verbatim>\<open>JSON.stringify\<close> leaves out a member that is \<^verbatim>\<open>undefined\<close>\<close>
  "optional_member k v = (case v of None \<Rightarrow> [] | Some s \<Rightarrow> [(k, s)])"

definition s1_qrData :: "env \<Rightarrow> visitor_fields \<Rightarrow> (string \<times> string) list" where
  "s1_qrData e f =
     [(''id'', ''VIS-'' @ show_int (date_now e))] @ optional_member ''name'' (f_visitor_name f) @
     [(''mobile'', or_empty (f_mobile f)),
      (''host'', or_empty (f_host_employee f)),
      (''purpose'', or_empty (f_purpose f)),
      (''checkin'', toISOString (new_date e)),
      (''status'', ''checked_in'')]"

definition s1_createVisitor :: "env \<Rightarrow> principal \<Rightarrow> visitor_fields \<Rightarrow> db \<Rightarrow> response \<times> db \<times> mail" where
  \<comment> \<open>\<^verbatim>\<open>server1.js\<close> lines 184 to 268: no validation; the mail is built and
      \<^verbatim>\<open>await transporter.sendMail(mailOptions)\<close> runs inside the handler's \<^verbatim>\<open>try\<close>, after the
      insert; \<^verbatim>\<open>Buffer.from(photo_base64, 'base64')\<close> throws on a missing photo\<close>
  "s1_createVisitor e user f d =
     (case toDataURL e (JSON_stringify (s1_qrData e f)) of
        None \<Rightarrow> (Err 500 ''err.message'' None, d, NoMail)
      | Some qr \<Rightarrow>
          if db_fails e 0 then (Err 500 ''err.message'' None, d, NoMail)
          else
            (case insert_visitor (getdate e)
                    \<lparr> iv_visitor_name = f_visitor_name f, iv_mobile = f_mobile f,
                      iv_host_employee = f_host_employee f, iv_host_email = f_host_email f,
                      iv_purpose = f_purpose f, iv_photo_base64 = f_photo_base64 f,
                      iv_qr_code_data = Some (JSON_stringify (s1_qrData e f)),
                      iv_created_by = Some (p_username user) \<rparr> d of
               None \<Rightarrow> (Err 500 ''err.message'' None, d, NoMail)
             | Some (d', r) \<Rightarrow>
                 if f_photo_base64 f = None \<or> mail_build_throws e
                 then (Err 500 ''err.message'' None, d', MailBuildFailed)
                 else if mail_send_rejects e
                 then (Err 500 ''err.message'' None, d', MailSendFailed)
                 else (CreatedOk (visitor_id r) qr None, d', MailSent)))"

definition qrId :: "env \<Rightarrow> string" where
  \<comment> \<open>\<^verbatim>\<open>`VIS-${Date.now()}-${Math.random().toString(36).substr(2, 9)}`\<close>\<close>
  "qrId e = ''VIS-'' @ show_int (date_now e) @ ''-'' @ random36 e"

definition qrData :: "env \<Rightarrow> visitor_fields \<Rightarrow> (string \<times> string) list" where
  "qrData e f =
     [(''id'', qrId e),
      (''name'', or_empty (f_visitor_name f)),
      (''mobile'', or_empty (f_mobile f)),
      (''host'', or_empty (f_host_employee f)),
      (''purpose'', or_empty (f_purpose f)),
      (''checkin'', toISOString (new_date e)),
      (''status'', ''checked_in'')]"

definition created_by_of :: "principal option \<Rightarrow> string" where
  \<comment> \<open>\<^verbatim>\<open>req.user?.username || 'system'\<close>\<close>
  "created_by_of u =
     (case u of None \<Rightarrow> ''system''
      | Some p \<Rightarrow> if p_username p = [] then ''system'' else p_username p)"

definition created_json :: "env \<Rightarrow> visitor_fields \<Rightarrow> string \<Rightarrow> visitor_row \<Rightarrow> response" where
  \<comment> \<open>\<^verbatim>\<open>{ success, id: visitorId, qrCode,
        visitor: { name, host, checkinTime: checkinTime, visitorId: qrId } }\<close>\<close>
  "created_json e f qr r =
     CreatedOk (visitor_id r) qr
       (Some \<lparr> cv_name = or_empty (f_visitor_name f), cv_host = f_host_employee f,
               cv_checkinTime = checkin_time r, cv_visitorId = qrId e \<rparr>)"

definition s8_createVisitor :: "env \<Rightarrow> principal option \<Rightarrow> visitor_fields \<Rightarrow> db \<Rightarrow> response \<times> db \<times> mail" where
  \<comment> \<open>\<^verbatim>\<open>server8.js\<close> lines 1143 to 1278\<close>
  "s8_createVisitor e user f d =
     (if falsy (f_visitor_name f) \<or> falsy (f_host_email f) \<or> falsy (f_purpose f)
      then (Err 400 ''Missing required fields: visitor_name, host_email, and purpose are required'' (Some ''MISSING_FIELDS''), d, NoMail)
      else if \<not> emailRegex (or_empty (f_host_email f))
      then (Err 400 ''Invalid host email format'' (Some ''INVALID_EMAIL''), d, NoMail)
      else
        (case toDataURL e (JSON_stringify (qrData e f)) of
           None \<Rightarrow> (Err 500 ''Failed to create visitor'' (Some ''VISITOR_CREATION_ERROR''), d, NoMail)
         | Some qr \<Rightarrow>
             if db_fails e 0
             then (Err 500 ''Failed to create visitor'' (Some ''VISITOR_CREATION_ERROR''), d, NoMail)
             else
               (case insert_visitor (getdate e)
                       \<lparr> iv_visitor_name = f_visitor_name f, iv_mobile = or_null (f_mobile f),
                         iv_host_employee = or_null (f_host_employee f),
                         iv_host_email = f_host_email f, iv_purpose = f_purpose f,
                         iv_photo_base64 = or_null (f_photo_base64 f),
                         iv_qr_code_data = Some (JSON_stringify (qrData e f)),
                         iv_created_by = Some (created_by_of user) \<rparr> d of
                  None \<Rightarrow>
                    (Err 500 ''Failed to create visitor'' (Some ''VISITOR_CREATION_ERROR''), d, NoMail)
                | Some (d', r) \<Rightarrow> (created_json e f qr r, d', dispatch_mail e))))"

definition p0_createVisitor :: "env \<Rightarrow> principal option \<Rightarrow> visitor_fields \<Rightarrow> db \<Rightarrow> response \<times> db \<times> mail" where
  \<comment> \<open>\<^verbatim>\<open>part_000\<close> lines 460 to 641: the store calls are \<^verbatim>\<open>transaction.begin()\<close>, the
      insert and \<^verbatim>\<open>transaction.commit()\<close>; a failure rolls the insert back\<close>
  "p0_createVisitor e user f d =
     (if falsy (f_visitor_name f) \<or> falsy (f_host_email f) \<or> falsy (f_purpose f)
      then (Err 400 ''Missing required fields: visitor_name, host_email, and purpose are required'' (Some ''MISSING_FIELDS''), d, NoMail)
      else if \<not> emailRegex (or_empty (f_host_email f))
      then (Err 400 ''Invalid host email format'' (Some ''INVALID_EMAIL''), d, NoMail)
      else if \<not> falsy (f_mobile f) \<and> \<not> mobile_regex (or_empty (f_mobile f))
      then (Err 400 ''Mobile number must be 10 digits'' (Some ''INVALID_MOBILE''), d, NoMail)
      else if db_fails e 0
      then (Err 500 ''Failed to create visitor'' (Some ''VISITOR_CREATION_ERROR''), d, NoMail)
      else
        (case toDataURL e (JSON_stringify (qrData e f)) of
           None \<Rightarrow> (Err 500 ''Failed to create visitor'' (Some ''VISITOR_CREATION_ERROR''), d, NoMail)
         | Some qr \<Rightarrow>
             if db_fails e 1
             then (Err 500 ''Failed to create visitor'' (Some ''VISITOR_CREATION_ERROR''), d, NoMail)
             else
               (case insert_visitor (getdate e)
                       \<lparr> iv_visitor_name = f_visitor_name f, iv_mobile = or_null (f_mobile f),
                         iv_host_employee = or_null (f_host_employee f),
                         iv_host_email = f_host_email f, iv_purpose = f_purpose f,
                         iv_photo_base64 = or_null (f_photo_base64 f),
                         iv_qr_code_data = Some (JSON_stringify (qrData e f)),
                         iv_created_by = Some (created_by_of user) \<rparr> d of
                  None \<Rightarrow>
                    (Err 500 ''Failed to create visitor'' (Some ''VISITOR_CREATION_ERROR''), d, NoMail)
                | Some (d', r) \<Rightarrow>
                    (let audit = (\<lambda>s. case user of
                                          None \<Rightarrow> s
                                        | Some p \<Rightarrow> logAudit (audit_fails e) (p_id p)
                                            ''CREATE_VISITOR'' ''vs_visitors'' (visitor_id r) s)
                     in if db_fails e 2
                        then (Err 500 ''Failed to create visitor'' (Some ''VISITOR_CREATION_ERROR''),
                              audit d, NoMail)
                        else (created_json e f qr r, audit d', dispatch_mail e)))))"

section \<open>Check-out and update\<close>

definition out_of_sql_int :: "int \<Rightarrow> bool" where
  \<comment> \<open>outside the range of a \<^verbatim>\<open>sql.Int\<close> parameter, which the driver refuses\<close>
  "out_of_sql_int i = (i < - 2147483648 \<or> 2147483647 < i)"

text \<open>
  The later iterations take the path parameter as \<^verbatim>\<open>parseInt(req.params.id)\<close>, with
  \<^const>\<open>None\<close> for \<^verbatim>\<open>NaN\<close>.  The first iteration hands the text of the parameter to
  the driver as a \<^verbatim>\<open>sql.Int\<close>: the argument of \<^verbatim>\<open>s1_checkout\<close> is the number the driver
  itself makes of that text, with \<^const>\<open>None\<close> when the driver refuses the text (as it does
  for \<^verbatim>\<open>1abc\<close>, of which \<^verbatim>\<open>parseInt\<close> would make 1), and the handler then answers 500
  with the driver's message, written \<^verbatim>\<open>err.message\<close> here.
\<close>

definition s1_checkout :: "env \<Rightarrow> int option \<Rightarrow> db \<Rightarrow> response \<times> db \<times> mail" where
  \<comment> \<open>\<^verbatim>\<open>server1.js\<close> lines 271 to 290; \<open>i\<close> is the driver's reading of the path text\<close>
  "s1_checkout e i d =
     (case i of
        None \<Rightarrow> (Err 500 ''err.message'' None, d, NoMail)
      | Some n \<Rightarrow>
          if out_of_sql_int n \<or> db_fails e 0 then (Err 500 ''err.message'' None, d, NoMail)
          else
            (case checkout_blind (getdate e) n d of
               (d', k) \<Rightarrow>
                 if 0 < k then (CheckedOutOk None None, d', NoMail)
                 else (Err 404 ''Visitor not found'' None, d', NoMail)))"

definition checkout_mail :: "env \<Rightarrow> visitor_row \<Rightarrow> mail" where
  \<comment> \<open>\<^verbatim>\<open>if (visitor.host_email && process.env.SEND_CHECKOUT_EMAILS === 'true')\<close>\<close>
  "checkout_mail e v =
     (if host_email v \<noteq> [] \<and> send_checkout_emails e then dispatch_mail e else NoMail)"

definition s8_checkout_update :: "env \<Rightarrow> int \<Rightarrow> visitor_row \<Rightarrow> db \<Rightarrow> response \<times> db \<times> mail" where
  \<comment> \<open>\<^verbatim>\<open>server8.js\<close> lines 1317 to 1365: the second half of the handler, run on the
      store as it is when the \<^verbatim>\<open>UPDATE\<close> arrives, with the row read before\<close>
  "s8_checkout_update e n visitor d =
     (if db_fails e 1
      then (Err 500 ''Failed to check out visitor'' (Some ''CHECKOUT_ERROR''), d, NoMail)
      else
        (case checkout_conditional (getdate e) n d of
           (d', k) \<Rightarrow>
             if k = 0
             then (Err 404 ''Visitor not found or already checked out'' (Some ''VISITOR_NOT_FOUND''),
                   d', NoMail)
             else (CheckedOutOk (Some (toISOString (response_date e)))
                     (Some \<lparr> ck_id = n, ck_name = visitor_name visitor,
                             ck_host = host_employee visitor \<rparr>),
                   d', checkout_mail e visitor)))"

definition s8_checkout_select :: "env \<Rightarrow> int option \<Rightarrow> db \<Rightarrow> response + int \<times> visitor_row" where
  \<comment> \<open>\<^verbatim>\<open>server8.js\<close> lines 1283 to 1315: the first half, which answers by itself
      (\<^const>\<open>Inl\<close>) or goes on with the row it read\<close>
  "s8_checkout_select e i d =
     (case i of
        None \<Rightarrow> Inl (Err 400 ''Invalid visitor ID'' (Some ''INVALID_ID''))
      | Some n \<Rightarrow>
          if out_of_sql_int n \<or> db_fails e 0
          then Inl (Err 500 ''Failed to check out visitor'' (Some ''CHECKOUT_ERROR''))
          else
            (case select_visitor n d of
               [] \<Rightarrow> Inl (Err 404 ''Visitor not found'' (Some ''VISITOR_NOT_FOUND''))
             | visitor # _ \<Rightarrow>
                 if status visitor = ''checked_out''
                 then Inl (Err 400 ''Visitor already checked out'' (Some ''ALREADY_CHECKED_OUT''))
                 else Inr (n, visitor)))"

definition s8_checkout :: "env \<Rightarrow> int option \<Rightarrow> db \<Rightarrow> response \<times> db \<times> mail" where
  \<comment> \<open>\<^verbatim>\<open>server8.js\<close> lines 1281 to 1373, with no other request in between\<close>
  "s8_checkout e i d =
     (case s8_checkout_select e i d of
        Inl r \<Rightarrow> (r, d, NoMail)
      | Inr (n, visitor) \<Rightarrow> s8_checkout_update e n visitor d)"

definition p0_checkout :: "env \<Rightarrow> principal \<Rightarrow> int option \<Rightarrow> db \<Rightarrow> response \<times> db \<times> mail" where
  \<comment> \<open>\<^verbatim>\<open>part_000\<close> lines 644 to 765: the store calls are \<^verbatim>\<open>transaction.begin()\<close>, the
      select, the update and \<^verbatim>\<open>transaction.commit()\<close>\<close>
  "p0_checkout e user i d =
     (case i of
        None \<Rightarrow> (Err 400 ''Invalid visitor ID'' (Some ''INVALID_ID''), d, NoMail)
      | Some n \<Rightarrow>
          if n \<le> 0 then (Err 400 ''Invalid visitor ID'' (Some ''INVALID_ID''), d, NoMail)
          else if db_fails e 0 \<or> out_of_sql_int n \<or> db_fails e 1
          then (Err 500 ''Failed to check out visitor'' (Some ''CHECKOUT_ERROR''), d, NoMail)
          else
            (case select_visitor n d of
               [] \<Rightarrow> (Err 404 ''Visitor not found'' (Some ''VISITOR_NOT_FOUND''), d, NoMail)
             | visitor # _ \<Rightarrow>
                 if status visitor = ''checked_out''
                 then (Err 400 ''Visitor already checked out'' (Some ''ALREADY_CHECKED_OUT''),
                       d, NoMail)
                 else if db_fails e 2
                 then (Err 500 ''Failed to check out visitor'' (Some ''CHECKOUT_ERROR''), d, NoMail)
                 else
                   (case checkout_conditional_p0 (getdate e) n d of
                      (d', k) \<Rightarrow>
                        if k = 0
                        then (Err 404 ''Visitor not found or already checked out''
                                (Some ''VISITOR_NOT_FOUND''), d, NoMail)
                        else
                          (let audit = logAudit (audit_fails e) (p_id user) ''CHECKOUT_VISITOR''
                                         ''vs_visitors'' n
                           in if db_fails e 3
                              then (Err 500 ''Failed to check out visitor'' (Some ''CHECKOUT_ERROR''),
                                    audit d, NoMail)
                              else (CheckedOutOk (Some (toISOString (response_date e)))
                                      (Some \<lparr> ck_id = n, ck_name = visitor_name visitor,
                                              ck_host = None \<rparr>),
                                    audit d', checkout_mail e visitor)))))"

record update_fields =
  u_visitor_name :: "string option"
  u_mobile :: "string option"
  u_host_employee :: "string option"
  u_host_email :: "string option"
  u_purpose :: "string option"

definition update_row :: "int \<Rightarrow> update_fields \<Rightarrow> visitor_row \<Rightarrow> visitor_row \<Rightarrow> visitor_row" where
  \<comment> \<open>the \<^verbatim>\<open>SET\<close> list of \<^verbatim>\<open>PUT /api/visitors/:id\<close>, each parameter being
      \<^verbatim>\<open>field || oldData.field\<close> with \<open>old\<close> the row read before\<close>
  "update_row now u old r =
     r\<lparr> visitor_name := or_empty (or_else (u_visitor_name u) (Some (visitor_name old))),
        mobile := or_else (u_mobile u) (mobile old),
        host_employee := or_else (u_host_employee u) (host_employee old),
        host_email := or_empty (or_else (u_host_email u) (Some (host_email old))),
        purpose := or_else (u_purpose u) (purpose old),
        updated_at := now \<rparr>"

definition p0_updateVisitor :: "env \<Rightarrow> principal \<Rightarrow> int option \<Rightarrow> update_fields \<Rightarrow> db \<Rightarrow> response \<times> db \<times> mail" where
  \<comment> \<open>\<^verbatim>\<open>part_000\<close> lines 1158 to 1262\<close>
  "p0_updateVisitor e user i u d =
     (case i of
        None \<Rightarrow> (Err 400 ''Invalid visitor ID'' (Some ''INVALID_ID''), d, NoMail)
      | Some n \<Rightarrow>
          if n \<le> 0 then (Err 400 ''Invalid visitor ID'' (Some ''INVALID_ID''), d, NoMail)
          else if db_fails e 0 \<or> out_of_sql_int n \<or> db_fails e 1
          then (Err 500 ''Failed to update visitor'' (Some ''UPDATE_VISITOR_ERROR''), d, NoMail)
          else
            (case select_visitor n d of
               [] \<Rightarrow> (Err 404 ''Visitor not found'' (Some ''VISITOR_NOT_FOUND''), d, NoMail)
             | old # _ \<Rightarrow>
                 if db_fails e 2
                 then (Err 500 ''Failed to update visitor'' (Some ''UPDATE_VISITOR_ERROR''), d, NoMail)
                 else
                   (case update_where (\<lambda>r. visitor_id r = n) (update_row (getdate e) u old) d of
                      (d', k) \<Rightarrow>
                        if k = 0
                        then (Err 404 ''Visitor not found'' (Some ''VISITOR_NOT_FOUND''), d, NoMail)
                        else
                          (let audit = logAudit (audit_fails e) (p_id user) ''UPDATE_VISITOR''
                                         ''vs_visitors'' n
                           in if db_fails e 3
                              then (Err 500 ''Failed to update visitor''
                                      (Some ''UPDATE_VISITOR_ERROR''), audit d, NoMail)
                              else (UpdatedOk n, audit d', NoMail)))))"

section \<open>Listing\<close>

record list_query =
  q_date :: "int option"
    \<comment> \<open>the day that \<^verbatim>\<open>date\<close> names, in days since the epoch\<close>
  q_status :: "string option"
  q_host_email :: "string option"
  q_host_employee :: "string option"
  q_search :: "string option"
  q_page :: "int option"
    \<comment> \<open>\<^verbatim>\<open>parseInt(page)\<close> with the default 1, \<^const>\<open>None\<close> for \<^verbatim>\<open>NaN\<close>\<close>
  q_limit :: "int option"
    \<comment> \<open>\<^verbatim>\<open>parseInt(limit)\<close> with the default 50\<close>
  q_sortBy :: string
  q_sortOrder :: string

definition day_of :: "int \<Rightarrow> int" where
  \<comment> \<open>\<^verbatim>\<open>CAST(checkin_time AS DATE)\<close>\<close>
  "day_of t = t div 86400000"

definition null_like :: "env \<Rightarrow> string \<Rightarrow> string option \<Rightarrow> bool" where
  "null_like e pat v = (case v of None \<Rightarrow> False | Some s \<Rightarrow> sql_like e pat s)"

definition on_date :: "list_query \<Rightarrow> visitor_row \<Rightarrow> bool" where
  "on_date q r = (case q_date q of None \<Rightarrow> True | Some day \<Rightarrow> day_of (checkin_time r) = day)"

definition s8_where :: "env \<Rightarrow> list_query \<Rightarrow> visitor_row \<Rightarrow> bool" where
  \<comment> \<open>the \<^verbatim>\<open>WHERE\<close> clause that \<^verbatim>\<open>server8.js\<close> lines 1450 to 1468 put together\<close>
  "s8_where e q r =
     (on_date q r \<and>
      (falsy (q_status q) \<or> status r = or_empty (q_status q)) \<and>
      (falsy (q_host_email q) \<or> host_email r = or_empty (q_host_email q)) \<and>
      (falsy (q_search q) \<or>
         (let pat = ''%'' @ or_empty (q_search q) @ ''%'' in
          sql_like e pat (visitor_name r) \<or> null_like e pat (mobile r) \<or>
          null_like e pat (host_employee r))))"

definition p0_where :: "env \<Rightarrow> list_query \<Rightarrow> visitor_row \<Rightarrow> bool" where
  \<comment> \<open>\<^verbatim>\<open>part_000\<close> lines 888 to 917\<close>
  "p0_where e q r =
     (on_date q r \<and>
      (falsy (q_status q) \<or> status r = or_empty (q_status q)) \<and>
      (falsy (q_host_email q) \<or> host_email r = or_empty (q_host_email q)) \<and>
      (falsy (q_host_employee q) \<or>
         null_like e (''%'' @ or_empty (q_host_employee q) @ ''%'') (host_employee r)) \<and>
      (falsy (q_search q) \<or>
         (let pat = ''%'' @ or_empty (q_search q) @ ''%'' in
          sql_like e pat (visitor_name r) \<or> null_like e pat (mobile r) \<or>
          null_like e pat (host_employee r) \<or> sql_like e pat (host_email r) \<or>
          null_like e pat (purpose r))))"

datatype sqlval = Null | IntV int | StrV string

fun str_le :: "string \<Rightarrow> string \<Rightarrow> bool" where
  "str_le [] t = True"
| "str_le (a # s) [] = False"
| "str_le (a # s) (b # t) =
     ((of_char a :: nat) < of_char b \<or> (a = b \<and> str_le s t))"

fun sql_le :: "sqlval \<Rightarrow> sqlval \<Rightarrow> bool" where
  \<comment> \<open>\<^verbatim>\<open>NULL\<close> sorts lowest\<close>
  "sql_le Null v = True"
| "sql_le (IntV a) (IntV b) = (a \<le> b)"
| "sql_le (StrV a) (StrV b) = str_le a b"
| "sql_le (IntV a) Null = False"
| "sql_le (StrV a) Null = False"
| "sql_le (IntV a) (StrV b) = True"
| "sql_le (StrV a) (IntV b) = False"

definition opt_str :: "string option \<Rightarrow> sqlval" where
  "opt_str v = (case v of None \<Rightarrow> Null | Some s \<Rightarrow> StrV s)"

definition column :: "string \<Rightarrow> visitor_row \<Rightarrow> sqlval" where
  "column c r =
     (if c = ''checkin_time'' then IntV (checkin_time r)
      else if c = ''checkout_time'' then (case checkout_time r of None \<Rightarrow> Null | Some t \<Rightarrow> IntV t)
      else if c = ''visitor_name'' then StrV (visitor_name r)
      else if c = ''host_employee'' then opt_str (host_employee r)
      else if c = ''host_email'' then StrV (host_email r)
      else StrV (status r))"

fun insort_by :: "('a \<Rightarrow> 'a \<Rightarrow> bool) \<Rightarrow> 'a \<Rightarrow> 'a list \<Rightarrow> 'a list" where
  "insort_by le x [] = [x]"
| "insort_by le x (y # ys) = (if le x y then x # y # ys else y # insort_by le x ys)"

definition sort_by :: "('a \<Rightarrow> 'a \<Rightarrow> bool) \<Rightarrow> 'a list \<Rightarrow> 'a list" where
  "sort_by le xs = foldr (insort_by le) xs []"

definition order_by :: "string \<Rightarrow> string \<Rightarrow> visitor_row list \<Rightarrow> visitor_row list" where
  \<comment> \<open>\<^verbatim>\<open>ORDER BY column order\<close>; rows that agree on the column keep the order of the table\<close>
  "order_by c ord rows =
     (if ord = ''ASC'' then sort_by (\<lambda>a b. sql_le (column c a) (column c b)) rows
      else sort_by (\<lambda>a b. sql_le (column c b) (column c a)) rows)"

definition fetch :: "int \<Rightarrow> int \<Rightarrow> 'a list \<Rightarrow> 'a list" where
  \<comment> \<open>\<^verbatim>\<open>OFFSET @offset ROWS FETCH NEXT @limit ROWS ONLY\<close>\<close>
  "fetch offset limitNum rows = take (nat limitNum) (drop (nat offset) rows)"

definition ceil_div :: "int \<Rightarrow> int \<Rightarrow> int" where
  \<comment> \<open>\<^verbatim>\<open>Math.ceil(totalCount / limitNum)\<close> for a positive limit\<close>
  "ceil_div a b = - ((- a) div b)"

fun starts_with :: "string \<Rightarrow> string \<Rightarrow> bool" where
  "starts_with [] s = True"
| "starts_with (p # ps) [] = False"
| "starts_with (p # ps) (c # cs) = (if p = c then starts_with ps cs else False)"

fun js_replace :: "string \<Rightarrow> string \<Rightarrow> string \<Rightarrow> string" where
  \<comment> \<open>\<^verbatim>\<open>text.replace(pattern, replacement)\<close> with a string pattern: the first occurrence\<close>
  "js_replace pat rep [] = (if pat = [] then rep else [])"
| "js_replace pat rep (c # cs) =
     (if starts_with pat (c # cs) then rep @ drop (length pat) (c # cs)
      else c # js_replace pat rep cs)"

fun occurs :: "string \<Rightarrow> string \<Rightarrow> bool" where
  "occurs pat [] = (pat = [])"
| "occurs pat (c # cs) = (if starts_with pat (c # cs) then True else occurs pat cs)"

definition s8_select_text :: string where
  \<comment> \<open>the template literal of \<^verbatim>\<open>server8.js\<close> lines 1440 to 1446, line breaks included\<close>
  "s8_select_text =
     [CHR 0x0A] @ ''      SELECT '' @
     [CHR 0x0A] @ ''        id, visitor_name, mobile, host_employee, host_email, purpose,'' @
     [CHR 0x0A] @ ''        checkin_time, checkout_time, status, created_by'' @
     [CHR 0x0A] @ ''      FROM vs_visitors'' @
     [CHR 0x0A] @ ''      WHERE 1=1'' @
     [CHR 0x0A] @ ''    ''"

definition s8_query_text :: "list_query \<Rightarrow> string" where
  "s8_query_text q =
     s8_select_text
     @ (if q_date q = None then [] else '' AND CAST(checkin_time AS DATE) = @date'')
     @ (if falsy (q_status q) then [] else '' AND status = @status'')
     @ (if falsy (q_host_email q) then [] else '' AND host_email = @host_email'')
     @ (if falsy (q_search q) then []
        else '' AND (visitor_name LIKE @search OR mobile LIKE @search OR host_employee LIKE @search)'')"

definition s8_countQuery :: "list_query \<Rightarrow> string" where
  \<comment> \<open>\<^verbatim>\<open>server8.js\<close> line 1471\<close>
  "s8_countQuery q =
     js_replace
       ''SELECT id, visitor_name, mobile, host_employee, host_email, purpose, checkin_time, checkout_time, status, created_by''
       ''SELECT COUNT(*) as total_count''
       (s8_query_text q)"

definition total_count_of :: "string \<Rightarrow> visitor_row list \<Rightarrow> int option" where
  \<comment> \<open>\<^verbatim>\<open>countResult.recordset[0].total_count || 0\<close> for the text that was sent and the rows
      that match its \<^verbatim>\<open>WHERE\<close> clause: a \<^verbatim>\<open>COUNT(*)\<close> select returns one row with the count;
      a column select returns the rows themselves, which have no member \<^verbatim>\<open>total_count\<close>,
      and reading a member of the missing first row throws (\<^const>\<open>None\<close>)\<close>
  "total_count_of text rows =
     (if occurs ''COUNT(*)'' text then Some (int (length rows))
      else (case rows of [] \<Rightarrow> None | r # _ \<Rightarrow> Some 0))"

definition list_json :: "visitor_row list \<Rightarrow> int \<Rightarrow> int \<Rightarrow> int \<Rightarrow> response" where
  "list_json rows pageNum limitNum totalCount =
     ListOk rows \<lparr> pg_page = pageNum, pg_limit = limitNum, pg_total = totalCount,
                   pg_pages = ceil_div totalCount limitNum \<rparr>"

definition fetch_error :: response where
  "fetch_error = Err 500 ''Failed to fetch visitors'' (Some ''FETCH_VISITORS_ERROR'')"

definition s8_listVisitors :: "env \<Rightarrow> list_query \<Rightarrow> db \<Rightarrow> response" where
  \<comment> \<open>\<^verbatim>\<open>server8.js\<close> lines 1425 to 1501; the store refuses a negative offset and a
      \<^verbatim>\<open>FETCH NEXT\<close> of no rows\<close>
  "s8_listVisitors e q d =
     (if db_fails e 0 then fetch_error
      else
        (case total_count_of (s8_countQuery q) (filter (s8_where e q) (visitors d)) of
           None \<Rightarrow> fetch_error
         | Some totalCount \<Rightarrow>
             (case (q_page q, q_limit q) of
                (Some pageNum, Some limitNum) \<Rightarrow>
                  (let offset = (pageNum - 1) * limitNum in
                   if offset < 0 \<or> limitNum \<le> 0 \<or> out_of_sql_int offset \<or>
                      out_of_sql_int limitNum \<or> db_fails e 1
                   then fetch_error
                   else list_json
                          (fetch offset limitNum
                             (order_by ''checkin_time'' ''DESC'' (filter (s8_where e q) (visitors d))))
                          pageNum limitNum totalCount)
              | _ \<Rightarrow> fetch_error)))"

definition validSortColumns :: "string list" where
  "validSortColumns =
     [''checkin_time'', ''checkout_time'', ''visitor_name'', ''host_employee'', ''host_email'',
      ''status'']"

definition toUpperCase :: "string \<Rightarrow> string" where
  "toUpperCase s =
     map (\<lambda>c. if 97 \<le> (of_char c :: nat) \<and> (of_char c :: nat) \<le> 122
               then char_of ((of_char c :: nat) - 32) else c) s"

definition p0_sortColumn :: "list_query \<Rightarrow> string" where
  "p0_sortColumn q = (if q_sortBy q \<in> set validSortColumns then q_sortBy q else ''checkin_time'')"

definition p0_order :: "list_query \<Rightarrow> string" where
  "p0_order q = (if toUpperCase (q_sortOrder q) = ''ASC'' then ''ASC'' else ''DESC'')"

definition p0_pageNum :: "list_query \<Rightarrow> int option" where
  \<comment> \<open>\<^verbatim>\<open>Math.max(1, parseInt(page))\<close>\<close>
  "p0_pageNum q = map_option (max 1) (q_page q)"

definition p0_limitNum :: "list_query \<Rightarrow> int option" where
  \<comment> \<open>\<^verbatim>\<open>Math.min(100, Math.max(1, parseInt(limit)))\<close>\<close>
  "p0_limitNum q = map_option (\<lambda>l. min 100 (max 1 l)) (q_limit q)"

definition p0_sorted :: "env \<Rightarrow> list_query \<Rightarrow> db \<Rightarrow> visitor_row list" where
  "p0_sorted e q d = order_by (p0_sortColumn q) (p0_order q) (filter (p0_where e q) (visitors d))"

definition p0_listVisitors :: "env \<Rightarrow> list_query \<Rightarrow> db \<Rightarrow> response" where
  \<comment> \<open>\<^verbatim>\<open>part_000\<close> lines 854 to 963: one query, whose rows carry
      \<^verbatim>\<open>COUNT(*) OVER() AS total_count\<close>, the size of the filtered set; the response also has
      \<^verbatim>\<open>hasNext\<close>, \<^verbatim>\<open>hasPrev\<close> and the filters, which follow from the fields kept here\<close>
  "p0_listVisitors e q d =
     (case (p0_pageNum q, p0_limitNum q) of
        (Some pageNum, Some limitNum) \<Rightarrow>
          (let offset = (pageNum - 1) * limitNum in
           if out_of_sql_int offset \<or> db_fails e 0 then fetch_error
           else
             (let recordset = fetch offset limitNum (p0_sorted e q d);
                  totalCount = (if recordset = [] then 0
                                else int (length (filter (p0_where e q) (visitors d))))
              in list_json recordset pageNum limitNum totalCount))
      | _ \<Rightarrow> fetch_error)"

section \<open>What the caller and the store can observe\<close>

definition response_checkinTime :: "response \<Rightarrow> string option" where
  \<comment> \<open>\<^verbatim>\<open>visitor.checkinTime\<close> as \<^verbatim>\<open>res.json\<close> writes the date\<close>
  "response_checkinTime r =
     (case r of CreatedOk i qr (Some v) \<Rightarrow> Some (toISOString (cv_checkinTime v)) | _ \<Rightarrow> None)"

definition stored_payload :: "db \<Rightarrow> string option" where
  \<comment> \<open>\<^verbatim>\<open>qr_code_data\<close> of the row inserted last\<close>
  "stored_payload d =
     (case rev (visitors d) of [] \<Rightarrow> None | r # _ \<Rightarrow> qr_code_data r)"

definition payload_member :: "string \<Rightarrow> string option \<Rightarrow> string option" where
  \<comment> \<open>\<^verbatim>\<open>JSON.parse(payload)[k]\<close>\<close>
  "payload_member k payload =
     (case payload of
        None \<Rightarrow> None
      | Some text \<Rightarrow> (case JSON_parse text of None \<Rightarrow> None | Some obj \<Rightarrow> member_of obj k))"

definition is_login_ok :: "response \<Rightarrow> bool" where
  "is_login_ok r = (case r of LoginOk t u \<Rightarrow> True | _ \<Rightarrow> False)"

definition invalid_credentials :: response where
  "invalid_credentials = Err 401 ''Invalid credentials'' (Some ''INVALID_CREDENTIALS'')"

definition account_disabled :: response where
  "account_disabled = Err 403 ''Account is disabled'' (Some ''ACCOUNT_DISABLED'')"

datatype p0_op =
    Create "principal option" visitor_fields
  | CheckOut principal "int option"
  | Update principal "int option" update_fields

fun p0_step :: "env \<Rightarrow> p0_op \<Rightarrow> db \<Rightarrow> db" where
  \<comment> \<open>the store after one of the writing requests of \<^verbatim>\<open>part_000\<close>; its other routes
      only read\<close>
  "p0_step e (Create u f) d = fst (snd (p0_createVisitor e u f d))"
| "p0_step e (CheckOut u i) d = fst (snd (p0_checkout e u i d))"
| "p0_step e (Update u i f) d = fst (snd (p0_updateVisitor e u i f d))"

definition frozen_columns :: "visitor_row \<Rightarrow> int \<times> string option \<times> string option \<times> int \<times> string option \<times> int" where
  \<comment> \<open>the columns that only the insert writes\<close>
  "frozen_columns r =
     (visitor_id r, photo_base64 r, qr_code_data r, checkin_time r, created_by r, created_at r)"

definition visit_columns :: "visitor_row \<Rightarrow> string \<times> string option \<times> string option \<times> string \<times> string option" where
  \<comment> \<open>the columns that \<^verbatim>\<open>PUT /api/visitors/:id\<close> writes\<close>
  "visit_columns r = (visitor_name r, mobile r, host_employee r, host_email r, purpose r)"

definition state_columns :: "visitor_row \<Rightarrow> string \<times> int option" where
  "state_columns r = (status r, checkout_time r)"

definition old_rows :: "db \<Rightarrow> db \<Rightarrow> visitor_row list" where
  \<comment> \<open>the rows of the later store that stand where the rows of the earlier one stood\<close>
  "old_rows d d' = take (length (visitors d)) (visitors d')"

definition p0_checked_out :: "int \<Rightarrow> int \<Rightarrow> visitor_row \<Rightarrow> visitor_row" where
  \<comment> \<open>what the conditional \<^verbatim>\<open>UPDATE\<close> of \<^verbatim>\<open>part_000\<close> makes of a row\<close>
  "p0_checked_out now n r =
     (if visitor_id r = n \<and> status r = ''checked_in''
      then (checkout_row now r)\<lparr> updated_at := now \<rparr> else r)"

section \<open>A reception desk\<close>

definition env0 :: env where
  \<comment> \<open>the application clock reads 2024-01-01T10:00:00.000Z when the visitor is entered;
      the store's clock is five and a half hours ahead\<close>
  "env0 =
     \<lparr> date_now = 1704103200000, random36 = ''k3j9x2m1q'', new_date = 1704103200000,
       response_date = 1704106800250, getdate = 1704123000000,
       toDataURL = (\<lambda>s. Some ''data:image/png;base64,iVBORw0KGgo=''),
       bcrypt_compare = (\<lambda>p h. h = ''$2b$10$'' @ p),
       db_fails = (\<lambda>k. False), audit_fails = False,
       mail_build_throws = False, mail_send_rejects = False,
       send_checkout_emails = False, sql_like = (\<lambda>p v. False) \<rparr>"

definition jane_fields :: visitor_fields where
  "jane_fields =
     \<lparr> f_visitor_name = Some ''Jane Doe'', f_mobile = None, f_host_employee = Some ''R. Host'',
       f_host_email = Some ''host@x.com'', f_purpose = Some ''Meeting'',
       f_photo_base64 = Some ''/9j/4AAQ'' \<rparr>"

definition admin :: user_row where
  "admin =
     \<lparr> user_id = 1, username = ''admin'', email = ''admin@seedsfincap.com'',
       password = ''$2b$10$Seeds@123'', role = ''admin'', is_active = Some True,
       last_login = None \<rparr>"

definition bob :: user_row where
  "bob =
     \<lparr> user_id = 2, username = ''bob'', email = ''bob@seedsfincap.com'',
       password = ''$2b$10$bobs-password'', role = ''reception'', is_active = Some False,
       last_login = None \<rparr>"

definition db0 :: db where
  "db0 = \<lparr> visitors = [], next_visitor_id = 1, users = [admin, bob], audit_log = [] \<rparr>"

definition jane :: visitor_row where
  "jane =
     \<lparr> visitor_id = 1, visitor_name = ''Jane Doe'', mobile = None,
       host_employee = Some ''R. Host'', host_email = ''host@x.com'',
       purpose = Some ''Meeting'', photo_base64 = None, qr_code_data = None,
       checkin_time = 1704123000000, checkout_time = None, status = ''checked_in'',
       created_by = Some ''system'', created_at = 1704123000000,
       updated_at = 1704123000000 \<rparr>"

definition db1 :: db where
  "db1 = \<lparr> visitors = [jane], next_visitor_id = 2, users = [admin, bob], audit_log = [] \<rparr>"

definition desk :: principal where
  "desk = \<lparr> p_id = 1, p_username = ''admin'', p_email = Some ''admin@seedsfincap.com'',
            p_role = ''admin'' \<rparr>"

definition first_page :: list_query where
  "first_page =
     \<lparr> q_date = None, q_status = None, q_host_email = None, q_host_employee = None,
       q_search = None, q_page = Some 1, q_limit = Some 10,
       q_sortBy = ''checkin_time'', q_sortOrder = ''DESC'' \<rparr>"

definition no_update :: update_fields where
  "no_update =
     \<lparr> u_visitor_name = None, u_mobile = None, u_host_employee = None, u_host_email = None,
       u_purpose = None \<rparr>"

lemma hex_val_hex_char: "d < 16 \<Longrightarrow> hex_val (hex_char d) = Some d"
  by (auto simp: hex_val_def hex_char_def Let_def)

lemma cons_fst_Some [simp]: "cons_fst c (Some (s, t)) = Some (c # s, t)"
  by (simp add: cons_fst_def)

lemma char_eq_of_code: "(of_char c :: nat) = of_char d \<Longrightarrow> c = d"
  by simp

lemma parse_quote_char:
  "parse_chars (json_quote_char c @ rest) = cons_fst c (parse_chars rest)"
proof -
  let ?n = "of_char c :: nat"
  consider "?n = 34" | "?n = 92" | "?n = 8" | "?n = 12" | "?n = 10" | "?n = 13" | "?n = 9"
    | "?n < 32" "?n \<notin> {8, 9, 10, 12, 13}" | "?n \<ge> 32" "?n \<noteq> 34" "?n \<noteq> 92"
    by fastforce
  then show ?thesis
  proof cases
    case 1
    then have "c = CHR 0x22" by (intro char_eq_of_code) simp
    then show ?thesis by (simp add: json_quote_char_def unescape_def)
  next
    case 2
    then have "c = CHR 0x5C" by (intro char_eq_of_code) simp
    then show ?thesis by (simp add: json_quote_char_def unescape_def)
  next
    case 3
    then have "c = CHR 0x08" by (intro char_eq_of_code) simp
    then show ?thesis by (simp add: json_quote_char_def unescape_def)
  next
    case 4
    then have "c = CHR 0x0C" by (intro char_eq_of_code) simp
    then show ?thesis by (simp add: json_quote_char_def unescape_def)
  next
    case 5
    then have "c = CHR 0x0A" by (intro char_eq_of_code) simp
    then show ?thesis by (simp add: json_quote_char_def unescape_def)
  next
    case 6
    then have "c = CHR 0x0D" by (intro char_eq_of_code) simp
    then show ?thesis by (simp add: json_quote_char_def unescape_def)
  next
    case 7
    then have "c = CHR 0x09" by (intro char_eq_of_code) simp
    then show ?thesis by (simp add: json_quote_char_def unescape_def)
  next
    case 8
    have d: "?n div 16 < 16" "?n mod 16 < 16" using 8 by simp_all
    have h0: "hex_val CHR ''0'' = Some 0" by (simp add: hex_val_def)
    have "hex4 CHR ''0'' CHR ''0'' (hex_char (?n div 16)) (hex_char (?n mod 16)) = Some c"
      using 8 by (simp add: hex4_def h0 hex_val_hex_char[OF d(1)] hex_val_hex_char[OF d(2)])
    then show ?thesis using 8 by (simp add: json_quote_char_def Let_def)
  next
    case 9
    then have "c \<noteq> CHR 0x22" "c \<noteq> CHR 0x5C" by auto
    with 9 show ?thesis by (simp add: json_quote_char_def)
  qed
qed

lemma parse_chars_quoted:
  "parse_chars (concat (map json_quote_char s) @ CHR 0x22 # rest) = Some (s, rest)"
  by (induction s) (simp_all add: parse_quote_char)

lemma skip_ws_quote [simp]: "skip_ws (CHR 0x22 # s) = CHR 0x22 # s"
  by (simp add: skip_ws_def is_ws_def)

lemma parse_string_quoted: "parse_string (json_quote s @ rest) = Some (s, rest)"
  by (simp add: parse_string_def json_quote_def parse_chars_quoted)

lemma expect_hit: "\<not> is_ws c \<Longrightarrow> expect c (c # s) = Some s"
  by (simp add: expect_def skip_ws_def)

lemma expect_miss: "\<not> is_ws d \<Longrightarrow> d \<noteq> c \<Longrightarrow> expect c (d # s) = None"
  by (simp add: expect_def skip_ws_def)

lemma parse_member:
  "parse_members (Suc n) (stringify_member (k, v) @ CHR '','' # rest) =
     map_option ((#) (k, v)) (parse_members n rest)"
  by (simp add: stringify_member_def parse_string_quoted expect_hit expect_miss is_ws_def)

lemma parse_last_member:
  "parse_members (Suc n) (stringify_member (k, v) @ ''}'') = Some [(k, v)]"
  by (simp add: stringify_member_def parse_string_quoted expect_hit expect_miss is_ws_def skip_ws_def)

lemma parse_members_stringified:
  "kvs \<noteq> [] \<Longrightarrow> length kvs \<le> n \<Longrightarrow>
     parse_members n (join_comma (map stringify_member kvs) @ ''}'') = Some kvs"
proof (induction kvs arbitrary: n)
  case Nil
  then show ?case by simp
next
  case (Cons kv kvs)
  obtain k v where kv: "kv = (k, v)" by (cases kv)
  obtain m where n: "n = Suc m" using Cons.prems(2) by (cases n) auto
  show ?case
  proof (cases kvs)
    case Nil
    then show ?thesis using parse_last_member[of m k v] by (simp add: kv n)
  next
    case (Cons kv' kvs')
    have "parse_members m (join_comma (map stringify_member kvs) @ ''}'') = Some kvs"
      using Cons.IH[of m] Cons.prems(2) Cons by (simp add: n)
    then show ?thesis
      using parse_member[of m k v "join_comma (map stringify_member kvs) @ ''}''"] Cons
      by (simp add: kv n)
  qed
qed

lemma length_join_comma: "length kvs \<le> length (join_comma (map stringify_member kvs))"
proof (induction kvs)
  case Nil
  then show ?case by simp
next
  case (Cons kv kvs)
  then show ?case
    by (cases kvs) (simp_all add: stringify_member_def json_quote_def)
qed

lemma join_comma_head:
  "kvs \<noteq> [] \<Longrightarrow> \<exists>t. join_comma (map stringify_member kvs) = CHR 0x22 # t"
proof -
  assume "kvs \<noteq> []"
  then obtain kv rest where kvs: "kvs = kv # rest" by (cases kvs) auto
  show ?thesis
    by (cases rest) (simp_all add: kvs stringify_member_def json_quote_def)
qed

lemma JSON_parse_stringify: "JSON_parse (JSON_stringify kvs) = Some kvs"
proof (cases "kvs = []")
  case True
  then show ?thesis
    by (simp add: JSON_parse_def JSON_stringify_def expect_hit is_ws_def skip_ws_def)
next
  case False
  define body where "body = join_comma (map stringify_member kvs)"
  define n where "n = length (JSON_stringify kvs)"
  obtain t where t: "body = CHR 0x22 # t"
    using join_comma_head[OF False] by (auto simp: body_def)
  have len: "length kvs \<le> n"
    using length_join_comma[of kvs] by (simp add: JSON_stringify_def n_def)
  have text_eq: "JSON_stringify kvs = CHR ''{'' # body @ ''}''"
    by (simp add: JSON_stringify_def body_def)
  have e1: "expect (CHR ''{'') (CHR ''{'' # body @ ''}'') = Some (body @ ''}'')"
    by (simp add: expect_hit is_ws_def)
  have e2: "expect (CHR ''}'') (body @ ''}'') = None"
    by (simp add: t expect_miss is_ws_def)
  have "JSON_parse (JSON_stringify kvs) = parse_members n (body @ ''}'')"
    unfolding JSON_parse_def n_def by (simp only: text_eq e1 e2 option.case)
  then show ?thesis
    using parse_members_stringified[OF False len] by (simp add: body_def)
qed

lemmas desk_defs =
  env0_def jane_fields_def admin_def bob_def db0_def jane_def db1_def desk_def
  first_page_def no_update_def

section \<open>Check-out happens once\<close>

lemma filter_after_update:
  "(\<And>r. c r \<Longrightarrow> \<not> c (f r)) \<Longrightarrow> filter c (map (\<lambda>r. if c r then f r else r) xs) = []"
  by (induction xs) auto

lemma update_after_update:
  "(\<And>r. c r \<Longrightarrow> \<not> c (f r)) \<Longrightarrow>
     map (\<lambda>r. if c r then g r else r) (map (\<lambda>r. if c r then f r else r) xs)
       = map (\<lambda>r. if c r then f r else r) xs"
  by (induction xs) auto

lemma update_where_settled:
  assumes "\<And>r. c r \<Longrightarrow> \<not> c (f r)"
  shows "update_where c g (fst (update_where c f d)) = (fst (update_where c f d), 0)"
  using filter_after_update[of c f "visitors d", OF assms]
        update_after_update[of c f g "visitors d", OF assms]
  by (simp add: update_where_def)

lemma checkout_conditional_settled:
  "checkout_conditional t' n (fst (checkout_conditional t n d)) = (fst (checkout_conditional t n d), 0)"
  unfolding checkout_conditional_def
  by (rule update_where_settled) (simp add: checkout_row_def)

lemma s8_update_after_update:
  "fst (snd (s8_checkout_update e' n v (fst (checkout_conditional t n d)))) = fst (checkout_conditional t n d)
   \<and> fst (s8_checkout_update e' n v (fst (checkout_conditional t n d))) \<noteq> CheckedOutOk a b"
  by (simp add: s8_checkout_update_def checkout_conditional_settled)

lemma s8_select_answers:
  "s8_checkout_select e i d = Inl r \<Longrightarrow> \<exists>s m c. r = Err s m c"
  by (auto simp: s8_checkout_select_def split: option.splits list.splits if_splits)

lemma s8_select_goes_on:
  "s8_checkout_select e i d = Inr (m, v) \<Longrightarrow> i = Some m"
  by (auto simp: s8_checkout_select_def split: option.splits list.splits if_splits)

lemma s8_checkout_store:
  "fst (s8_checkout e i d) = CheckedOutOk a b \<Longrightarrow>
     \<exists>n. i = Some n \<and> fst (snd (s8_checkout e i d)) = fst (checkout_conditional (getdate e) n d)"
proof -
  assume ok: "fst (s8_checkout e i d) = CheckedOutOk a b"
  show ?thesis
  proof (cases "s8_checkout_select e i d")
    case (Inl r)
    then show ?thesis
      using ok s8_select_answers[OF Inl] by (auto simp: s8_checkout_def)
  next
    case (Inr p)
    obtain m v where p: "p = (m, v)" by (cases p)
    have i: "i = Some m" using s8_select_goes_on Inr p by blast
    show ?thesis
      using ok Inr p i
      by (auto simp: s8_checkout_def s8_checkout_update_def split: if_splits prod.splits)
  qed
qed

lemma s8_checkout_after_update:
  "fst (s8_checkout e' (Some n) (fst (checkout_conditional t n d))) \<noteq> CheckedOutOk a b
   \<and> fst (snd (s8_checkout e' (Some n) (fst (checkout_conditional t n d))))
       = fst (checkout_conditional t n d)"
proof (cases "s8_checkout_select e' (Some n) (fst (checkout_conditional t n d))")
  case (Inl r)
  then show ?thesis
    using s8_select_answers[OF Inl] by (auto simp: s8_checkout_def)
next
  case (Inr p)
  obtain m v where p: "p = (m, v)" by (cases p)
  have "m = n" using s8_select_goes_on Inr p by fastforce
  then show ?thesis
    using Inr p s8_update_after_update[of e' n v t d a b] by (simp add: s8_checkout_def)
qed

lemma s8_checkout_at_most_once:
  assumes "fst (s8_checkout e i d) = CheckedOutOk a b"
  shows "fst (s8_checkout e' i (fst (snd (s8_checkout e i d)))) \<noteq> CheckedOutOk a' b'
         \<and> fst (snd (s8_checkout e' i (fst (snd (s8_checkout e i d)))))
             = fst (snd (s8_checkout e i d))"
proof -
  obtain n where n: "i = Some n"
    and d': "fst (snd (s8_checkout e i d)) = fst (checkout_conditional (getdate e) n d)"
    using s8_checkout_store[OF assms] by blast
  show ?thesis
    using s8_checkout_after_update[of e' n "getdate e" d a' b'] d' unfolding n by simp
qed

lemma s1_checkout_overwrites:
  assumes "\<not> out_of_sql_int n" "\<not> db_fails e 0" "r \<in> set (visitors d)" "visitor_id r = n"
  shows "fst (s1_checkout e (Some n) d) = CheckedOutOk None None"
    and "checkout_row (getdate e) r \<in> set (visitors (fst (snd (s1_checkout e (Some n) d))))"
proof -
  have "filter (\<lambda>r. visitor_id r = n) (visitors d) \<noteq> []"
    using assms(3,4) by (auto simp: filter_empty_conv)
  then show "fst (s1_checkout e (Some n) d) = CheckedOutOk None None"
    using assms(1,2) by (simp add: s1_checkout_def checkout_blind_def update_where_def)
  show "checkout_row (getdate e) r \<in> set (visitors (fst (snd (s1_checkout e (Some n) d))))"
    using assms by (force simp: s1_checkout_def checkout_blind_def update_where_def)
qed

text \<open>
  C1: a check-out succeeds at most once for a visitor id, and a stored \<^verbatim>\<open>checkout_time\<close>
  is never overwritten.  The lemmas above show this for \<^verbatim>\<open>server8.js\<close>, whose
  \<^verbatim>\<open>UPDATE\<close> is conditioned on \<^verbatim>\<open>status = 'checked_in'\<close>.  The first iteration in
  \<^verbatim>\<open>server1.js\<close> updates \<^verbatim>\<open>WHERE id = @id\<close> alone: at the desk below, two check-outs of
  visitor 1 both answer with success, and the second replaces the \<^verbatim>\<open>checkout_time\<close> that
  the first one stored.
\<close>

theorem s1_checkout_twice:
  "fst (s1_checkout env0 (Some 1) db1) = CheckedOutOk None None
   \<and> map checkout_time (visitors (fst (snd (s1_checkout env0 (Some 1) db1)))) = [Some 1704123000000]
   \<and> fst (s1_checkout (env0\<lparr>getdate := 1704126600000\<rparr>) (Some 1)
            (fst (snd (s1_checkout env0 (Some 1) db1)))) = CheckedOutOk None None
   \<and> map checkout_time
        (visitors (fst (snd (s1_checkout (env0\<lparr>getdate := 1704126600000\<rparr>) (Some 1)
            (fst (snd (s1_checkout env0 (Some 1) db1))))))) = [Some 1704126600000]"
  by (simp add: s1_checkout_def checkout_blind_def update_where_def checkout_row_def
        out_of_sql_int_def desk_defs)

section \<open>The notification mail\<close>

lemma s8_createVisitor_mail_isolated:
  "fst (s8_createVisitor (e\<lparr>mail_build_throws := a, mail_send_rejects := b\<rparr>) u f d)
     = fst (s8_createVisitor e u f d)
   \<and> fst (snd (s8_createVisitor (e\<lparr>mail_build_throws := a, mail_send_rejects := b\<rparr>) u f d))
     = fst (snd (s8_createVisitor e u f d))"
  by (simp add: s8_createVisitor_def created_json_def qrData_def qrId_def
           split: option.splits prod.splits)

lemma s8_checkout_mail_isolated:
  "fst (s8_checkout (e\<lparr>mail_build_throws := a, mail_send_rejects := b\<rparr>) i d)
     = fst (s8_checkout e i d)
   \<and> fst (snd (s8_checkout (e\<lparr>mail_build_throws := a, mail_send_rejects := b\<rparr>) i d))
     = fst (snd (s8_checkout e i d))"
  by (simp add: s8_checkout_def s8_checkout_select_def s8_checkout_update_def
           split: option.splits prod.splits list.splits sum.splits)

text \<open>
  C2: a failure of the notification mail changes neither the response nor the stored row.
  The lemmas above show this for \<^verbatim>\<open>server8.js\<close>, which does not await the send.  The
  first iteration in \<^verbatim>\<open>server1.js\<close> awaits \<^verbatim>\<open>transporter.sendMail\<close> inside the
  handler's \<^verbatim>\<open>try\<close>, after the insert: the same request is answered with the new id when
  the mail goes out and with status 500 when the send is rejected, while the row is stored
  in both cases.
\<close>

theorem s1_createVisitor_mail_failure:
  "fst (s1_createVisitor env0 desk jane_fields db0)
     = CreatedOk 1 ''data:image/png;base64,iVBORw0KGgo='' None
   \<and> fst (s1_createVisitor (env0\<lparr>mail_send_rejects := True\<rparr>) desk jane_fields db0)
     = Err 500 ''err.message'' None
   \<and> map visitor_name
       (visitors (fst (snd (s1_createVisitor (env0\<lparr>mail_send_rejects := True\<rparr>) desk jane_fields db0))))
     = [''Jane Doe'']"
  by (simp add: s1_createVisitor_def insert_visitor_def Let_def desk_defs)

section \<open>The QR payload\<close>

lemma s8_createVisitor_created:
  assumes "fst (s8_createVisitor e u f d) = CreatedOk i qr v"
  shows "\<exists>r. insert_visitor (getdate e)
                 \<lparr> iv_visitor_name = f_visitor_name f, iv_mobile = or_null (f_mobile f),
                   iv_host_employee = or_null (f_host_employee f),
                   iv_host_email = f_host_email f, iv_purpose = f_purpose f,
                   iv_photo_base64 = or_null (f_photo_base64 f),
                   iv_qr_code_data = Some (JSON_stringify (qrData e f)),
                   iv_created_by = Some (created_by_of u) \<rparr> d
                 = Some (fst (snd (s8_createVisitor e u f d)), r)
             \<and> CreatedOk i qr v = created_json e f qr r"
  using assms
  by (auto simp: s8_createVisitor_def created_json_def
           split: if_splits option.splits prod.splits)

lemma insert_visitor_row:
  assumes "insert_visitor now v d = Some (d', r)"
  shows "visitors d' = visitors d @ [r]" "visitor_id r = next_visitor_id d"
        "checkin_time r = now" "checkout_time r = None" "status r = ''checked_in''"
        "qr_code_data r = iv_qr_code_data v" "next_visitor_id d' = next_visitor_id d + 1"
        "users d' = users d" "audit_log d' = audit_log d"
  using assms by (auto simp: insert_visitor_def Let_def split: option.splits)

text \<open>
  C3, as the specification states it: the \<^verbatim>\<open>qr_code_data\<close> stored at creation, parsed
  back, gives the check-in timestamp that the creation returned to the caller.  It does not:
  the payload is built before the insert from the application's clock, and the
  \<^verbatim>\<open>checkinTime\<close> of the response is the store's \<^verbatim>\<open>INSERTED.checkin_time\<close>.  At the desk
  below the two clocks are five and a half hours apart.
\<close>

theorem qr_payload_checkin_differs:
  "payload_member ''checkin'' (stored_payload (fst (snd (s8_createVisitor env0 None jane_fields db0))))
     = Some ''2024-01-01T10:00:00.000Z''
   \<and> response_checkinTime (fst (s8_createVisitor env0 None jane_fields db0))
     = Some ''2024-01-01T15:30:00.000Z''"
  by code_simp

text \<open>
  C3, amended: whenever \<^verbatim>\<open>POST /api/visitors\<close> of \<^verbatim>\<open>server8.js\<close> succeeds, parsing the
  stored \<^verbatim>\<open>qr_code_data\<close> gives back the QR pass id returned as
  \<^verbatim>\<open>visitor.visitorId\<close>, the name returned as \<^verbatim>\<open>visitor.name\<close>, and as \<^verbatim>\<open>checkin\<close> the
  application's clock reading taken when the payload was built; the \<^verbatim>\<open>checkinTime\<close> of the
  response is the store's clock reading at the insert.
\<close>

theorem qr_payload_round_trip:
  assumes "fst (s8_createVisitor e u f d) = CreatedOk i qr (Some v)"
  shows "payload_member ''id'' (stored_payload (fst (snd (s8_createVisitor e u f d))))
           = Some (cv_visitorId v)
       \<and> payload_member ''name'' (stored_payload (fst (snd (s8_createVisitor e u f d))))
           = Some (cv_name v)
       \<and> payload_member ''checkin'' (stored_payload (fst (snd (s8_createVisitor e u f d))))
           = Some (toISOString (new_date e))
       \<and> response_checkinTime (fst (s8_createVisitor e u f d)) = Some (toISOString (getdate e))"
proof -
  obtain r where ins: "insert_visitor (getdate e)
                 \<lparr> iv_visitor_name = f_visitor_name f, iv_mobile = or_null (f_mobile f),
                   iv_host_employee = or_null (f_host_employee f),
                   iv_host_email = f_host_email f, iv_purpose = f_purpose f,
                   iv_photo_base64 = or_null (f_photo_base64 f),
                   iv_qr_code_data = Some (JSON_stringify (qrData e f)),
                   iv_created_by = Some (created_by_of u) \<rparr> d
                 = Some (fst (snd (s8_createVisitor e u f d)), r)"
    and resp: "CreatedOk i qr (Some v) = created_json e f qr r"
    using s8_createVisitor_created[OF assms] by auto
  have payload: "stored_payload (fst (snd (s8_createVisitor e u f d)))
                   = Some (JSON_stringify (qrData e f))"
    using insert_visitor_row(1,6)[OF ins] by (simp add: stored_payload_def)
  have v: "cv_visitorId v = qrId e" "cv_name v = or_empty (f_visitor_name f)"
          "cv_checkinTime v = getdate e"
    using resp insert_visitor_row(3)[OF ins] by (auto simp: created_json_def)
  show ?thesis
    by (simp add: payload payload_member_def JSON_parse_stringify member_of_def qrData_def v
          response_checkinTime_def assms)
qed

text \<open>The amended C3 at the desk: Jane Doe is entered and her pass is read back.\<close>

theorem qr_payload_round_trip_witness:
  "fst (s8_createVisitor env0 None jane_fields db0)
     = CreatedOk 1 ''data:image/png;base64,iVBORw0KGgo=''
         (Some \<lparr> cv_name = ''Jane Doe'', cv_host = Some ''R. Host'',
                 cv_checkinTime = 1704123000000,
                 cv_visitorId = ''VIS-1704103200000-k3j9x2m1q'' \<rparr>)
   \<and> payload_member ''id'' (stored_payload (fst (snd (s8_createVisitor env0 None jane_fields db0))))
     = Some ''VIS-1704103200000-k3j9x2m1q''
   \<and> payload_member ''name'' (stored_payload (fst (snd (s8_createVisitor env0 None jane_fields db0))))
     = Some ''Jane Doe''
   \<and> payload_member ''checkin'' (stored_payload (fst (snd (s8_createVisitor env0 None jane_fields db0))))
     = Some (toISOString 1704103200000)
   \<and> response_checkinTime (fst (s8_createVisitor env0 None jane_fields db0))
     = Some (toISOString 1704123000000)"
proof -
  have h: "fst (s8_createVisitor env0 None jane_fields db0)
     = CreatedOk 1 ''data:image/png;base64,iVBORw0KGgo=''
         (Some \<lparr> cv_name = ''Jane Doe'', cv_host = Some ''R. Host'',
                 cv_checkinTime = 1704123000000,
                 cv_visitorId = ''VIS-1704103200000-k3j9x2m1q'' \<rparr>)"
    by code_simp
  show ?thesis
    using qr_payload_round_trip[OF h] h by (simp add: env0_def)
qed

section \<open>Refusing a login\<close>

text \<open>
  C4, as the specification states it: the failure path of a login makes exactly one
  password-hash comparison whether or not the account exists.  In \<^verbatim>\<open>server8.js\<close> it does
  not when the account exists and is disabled: the handler answers \<^verbatim>\<open>ACCOUNT_DISABLED\<close>
  before any comparison, whatever the password.
\<close>

theorem s8_login_disabled_compares_nothing:
  "s8_login env0 (Some ''bob'') (Some ''wrong'') db1 = (account_disabled, db1, [])"
  by (simp add: s8_login_def select_user_def falsy_def or_empty_def account_disabled_def desk_defs)

text \<open>
  C4, amended: in \<^verbatim>\<open>server8.js\<close>, a login with both fields present whose lookup succeeds
  fails with \<^verbatim>\<open>INVALID_CREDENTIALS\<close> after exactly one comparison: against the fixed
  dummy hash when no account matches, against the stored hash when the account found is not
  disabled and the password is wrong.  When the account found is disabled the login fails
  with \<^verbatim>\<open>ACCOUNT_DISABLED\<close> and no comparison is made.
\<close>

theorem s8_login_failure_path:
  assumes "u \<noteq> []" "p \<noteq> []" "\<not> db_fails e 0"
  shows "(select_user u d = [] \<longrightarrow>
            s8_login e (Some u) (Some p) d = (invalid_credentials, d, [(p, dummy_hash)]))
       \<and> (\<forall>user rest. select_user u d = user # rest \<and> is_active user \<noteq> Some False
              \<and> \<not> bcrypt_compare e p (password user) \<longrightarrow>
            s8_login e (Some u) (Some p) d = (invalid_credentials, d, [(p, password user)]))
       \<and> (\<forall>user rest. select_user u d = user # rest \<and> is_active user = Some False \<longrightarrow>
            s8_login e (Some u) (Some p) d = (account_disabled, d, []))
       \<and> (fst (s8_login e (Some u) (Some p) d) = invalid_credentials \<longrightarrow>
            length (snd (snd (s8_login e (Some u) (Some p) d))) = 1)"
  using assms
  by (auto simp: s8_login_def falsy_def or_empty_def invalid_credentials_def
        account_disabled_def split: list.splits)

text \<open>
  The amended C4 at the desk: an unknown name and the administrator with a wrong password
  are both refused after one comparison, the first against the dummy hash.
\<close>

theorem s8_login_failure_path_witness:
  "s8_login env0 (Some ''nope'') (Some ''wrong'') db1
     = (invalid_credentials, db1, [(''wrong'', dummy_hash)])
   \<and> s8_login env0 (Some ''admin'') (Some ''wrongpass'') db1
     = (invalid_credentials, db1, [(''wrongpass'', ''$2b$10$Seeds@123'')])
   \<and> s8_login env0 (Some ''bob'') (Some ''wrong'') db1 = (account_disabled, db1, [])"
proof -
  have e: "\<not> db_fails env0 0" by (simp add: env0_def)
  have nope: "select_user ''nope'' db1 = []"
    by (simp add: select_user_def desk_defs)
  have adm: "select_user ''admin'' db1 = [admin]" "is_active admin \<noteq> Some False"
    "\<not> bcrypt_compare env0 ''wrongpass'' (password admin)" "password admin = ''$2b$10$Seeds@123''"
    by (simp_all add: select_user_def desk_defs)
  have bob: "select_user ''bob'' db1 = [bob]" "is_active bob = Some False"
    by (simp_all add: select_user_def desk_defs)
  show ?thesis
    using s8_login_failure_path[of "''nope''" "''wrong''" env0 db1, OF _ _ e] nope
          s8_login_failure_path[of "''admin''" "''wrongpass''" env0 db1, OF _ _ e] adm
          s8_login_failure_path[of "''bob''" "''wrong''" env0 db1, OF _ _ e] bob
    by simp
qed

text \<open>
  C5, as the specification states it: a login against an existing account whose active
  flag is false fails with \<^verbatim>\<open>ACCOUNT_DISABLED\<close>.  In \<^verbatim>\<open>part_000\<close> it does not: the lookup
  itself has \<^verbatim>\<open>AND is_active = 1\<close>, so the disabled account is not found and the login is
  refused like that of an unknown name, even with the right password.
\<close>

theorem p0_login_disabled_is_invalid:
  "p0_login env0 (Some ''bob'') (Some ''bobs-password'') db1
     = (invalid_credentials, db1, [(''bobs-password'', dummy_hash)])"
  by (simp add: p0_login_def select_active_user_def falsy_def or_empty_def
        invalid_credentials_def desk_defs)

text \<open>
  C5, amended: an account whose active flag is false never logs in, whatever the password.
  When the lookup succeeds and both fields are present, \<^verbatim>\<open>server8.js\<close> answers such a login
  with \<^verbatim>\<open>ACCOUNT_DISABLED\<close> (403), after the account was found and without
  comparing the password; \<^verbatim>\<open>part_000\<close> filters disabled accounts out of the lookup and
  answers \<^verbatim>\<open>INVALID_CREDENTIALS\<close> (401) after one comparison with the dummy hash.
\<close>

theorem login_disabled_account:
  assumes "select_user u d \<noteq> []" "\<forall>user \<in> set (select_user u d). is_active user = Some False"
  shows "\<not> is_login_ok (fst (s8_login e (Some u) pw d))
       \<and> \<not> is_login_ok (fst (p0_login e (Some u) pw d))
       \<and> (u \<noteq> [] \<and> p \<noteq> [] \<and> \<not> db_fails e 0 \<longrightarrow>
            s8_login e (Some u) (Some p) d = (account_disabled, d, [])
          \<and> p0_login e (Some u) (Some p) d = (invalid_credentials, d, [(p, dummy_hash)])
          \<and> account_disabled \<noteq> invalid_credentials)"
proof -
  obtain user rest where sel: "select_user u d = user # rest"
    using assms(1) by (cases "select_user u d") auto
  have off: "is_active user = Some False"
    using assms(2) sel by simp
  have none: "select_active_user u d = []"
    using assms(2) by (auto simp: select_active_user_def select_user_def filter_empty_conv)
  have s8: "\<not> is_login_ok (fst (s8_login e (Some u) pw d))"
    using sel off by (auto simp: s8_login_def is_login_ok_def or_empty_def)
  have p0: "\<not> is_login_ok (fst (p0_login e (Some u) pw d))"
    using none by (auto simp: p0_login_def is_login_ok_def or_empty_def)
  have both: "u \<noteq> [] \<and> p \<noteq> [] \<and> \<not> db_fails e 0 \<longrightarrow>
           s8_login e (Some u) (Some p) d = (account_disabled, d, [])
         \<and> p0_login e (Some u) (Some p) d = (invalid_credentials, d, [(p, dummy_hash)])
         \<and> account_disabled \<noteq> invalid_credentials"
    using sel off none
    by (auto simp: s8_login_def p0_login_def falsy_def or_empty_def account_disabled_def
          invalid_credentials_def)
  show ?thesis
    using s8 p0 both by blast
qed

text \<open>
  The amended C5 at the desk: Bob's account is switched off, and his right password gets
  him in through neither iteration.
\<close>

theorem login_disabled_account_witness:
  "select_user ''bob'' db1 = [bob]
   \<and> is_active bob = Some False
   \<and> \<not> is_login_ok (fst (s8_login env0 (Some ''bob'') (Some ''bobs-password'') db1))
   \<and> \<not> is_login_ok (fst (p0_login env0 (Some ''bob'') (Some ''bobs-password'') db1))
   \<and> s8_login env0 (Some ''bob'') (Some ''bobs-password'') db1 = (account_disabled, db1, [])"
proof -
  have sel: "select_user ''bob'' db1 = [bob]" and off: "is_active bob = Some False"
    by (simp_all add: select_user_def desk_defs)
  have h1: "select_user ''bob'' db1 \<noteq> []" using sel by simp
  have h2: "\<forall>user \<in> set (select_user ''bob'' db1). is_active user = Some False"
    using sel off by simp
  have e: "\<not> db_fails env0 0" by (simp add: env0_def)
  show ?thesis
    using login_disabled_account[OF h1 h2, of env0 "Some ''bobs-password''" "''bobs-password''"]
          sel off e
    by blast
qed

section \<open>What happens to a row after its creation\<close>

lemma visitors_logAudit [simp]: "visitors (logAudit fl a b c i d) = visitors d"
  by (simp add: logAudit_def)

lemma p0_createVisitor_rows:
  "visitors (fst (snd (p0_createVisitor e u f d))) = visitors d
   \<or> (\<exists>r. visitors (fst (snd (p0_createVisitor e u f d))) = visitors d @ [r])"
  by (auto simp: p0_createVisitor_def insert_visitor_def Let_def split: option.splits)

lemma checkout_conditional_p0_rows:
  "checkout_conditional_p0 now n d = (d', k) \<Longrightarrow>
     visitors d' = map (p0_checked_out now n) (visitors d)"
  by (auto simp: checkout_conditional_p0_def update_where_def p0_checked_out_def)

lemma p0_checkout_rows:
  "visitors (fst (snd (p0_checkout e u i d))) = visitors d
   \<or> (\<exists>n. i = Some n \<and> visitors (fst (snd (p0_checkout e u i d)))
            = map (p0_checked_out (getdate e) n) (visitors d))"
  by (auto simp: p0_checkout_def Let_def dest: checkout_conditional_p0_rows
        split: option.splits list.splits prod.splits)

lemma p0_updateVisitor_rows:
  "visitors (fst (snd (p0_updateVisitor e u i f d))) = visitors d
   \<or> (\<exists>n old. i = Some n \<and> visitors (fst (snd (p0_updateVisitor e u i f d)))
            = map (\<lambda>r. if visitor_id r = n then update_row (getdate e) f old r else r) (visitors d))"
  by (auto simp: p0_updateVisitor_def update_where_def Let_def
        split: option.splits list.splits prod.splits)

lemma list_all2_mapped: "(\<And>x. x \<in> set xs \<Longrightarrow> P x (g x)) \<Longrightarrow> list_all2 P xs (map g xs)"
  by (induction xs) auto

lemma list_all2_self: "(\<And>x. P x x) \<Longrightarrow> list_all2 P xs xs"
  by (induction xs) auto


lemma p0_checked_out_row:
  "frozen_columns (p0_checked_out now n r) = frozen_columns r
   \<and> visit_columns (p0_checked_out now n r) = visit_columns r
   \<and> (p0_checked_out now n r = r
       \<or> (visitor_id r = n \<and> status r = ''checked_in''
           \<and> status (p0_checked_out now n r) = ''checked_out''
           \<and> checkout_time (p0_checked_out now n r) = Some now))"
  by (simp add: p0_checked_out_def checkout_row_def frozen_columns_def visit_columns_def)

lemma update_row_keeps:
  "frozen_columns (update_row now f old r) = frozen_columns r
   \<and> state_columns (update_row now f old r) = state_columns r"
  by (simp add: update_row_def frozen_columns_def state_columns_def)

lemma old_rows_same: "visitors d' = visitors d \<Longrightarrow> old_rows d d' = visitors d"
  by (simp add: old_rows_def)

lemma old_rows_appended: "visitors d' = visitors d @ [r] \<Longrightarrow> old_rows d d' = visitors d"
  by (simp add: old_rows_def)

lemma old_rows_mapped: "visitors d' = map g (visitors d) \<Longrightarrow> old_rows d d' = map g (visitors d)"
  by (simp add: old_rows_def)

text \<open>
  C6, as the specification states it: no operation other than the check-out changes a
  field of an existing row.  \<^verbatim>\<open>part_000\<close> has \<^verbatim>\<open>PUT /api/visitors/:id\<close>, which rewrites
  the name, mobile number, host, host address and purpose of a row, checked out or not,
  as often as it is called.
\<close>

theorem p0_updateVisitor_renames:
  "map visitor_name (visitors db1) = [''Jane Doe'']
   \<and> fst (p0_updateVisitor env0 desk (Some 1) (no_update\<lparr>u_visitor_name := Some ''John Roe''\<rparr>) db1)
       = UpdatedOk 1
   \<and> map visitor_name
       (visitors (fst (snd (p0_updateVisitor env0 desk (Some 1)
           (no_update\<lparr>u_visitor_name := Some ''John Roe''\<rparr>) db1))))
       = [''John Roe'']"
  by code_simp

text \<open>
  C6, amended, for \<^verbatim>\<open>part_000\<close>: no request removes a visitor row.  A check-in leaves
  every existing row exactly as it is.  A check-out leaves every existing row as it is, or
  takes a row with the requested id from \<^verbatim>\<open>checked_in\<close> to \<^verbatim>\<open>checked_out\<close> with the
  store's time as \<^verbatim>\<open>checkout_time\<close>; so it never changes a row that is checked out, and it
  never changes the id, photo, QR payload, check-in time, creator, name, mobile number,
  host, host address or purpose of a row.  The update request
  (\<^verbatim>\<open>PUT /api/visitors/:id\<close>) changes rows with the requested id only, and of those never
  the id, photo, QR payload, check-in time, creator, \<^verbatim>\<open>status\<close> or \<^verbatim>\<open>checkout_time\<close>: it may
  rewrite the name, mobile number, host, host address, purpose and \<^verbatim>\<open>updated_at\<close>.
\<close>

theorem p0_rows_are_kept:
  "length (visitors d) \<le> length (visitors (p0_step e op d))
   \<and> old_rows d (p0_step e (Create c f) d) = visitors d
   \<and> list_all2 (\<lambda>old new. new = old \<or>
                   (i = Some (visitor_id old)
                    \<and> frozen_columns new = frozen_columns old
                    \<and> visit_columns new = visit_columns old
                    \<and> status old = ''checked_in'' \<and> status new = ''checked_out''
                    \<and> checkout_time new = Some (getdate e)))
       (visitors d) (old_rows d (p0_step e (CheckOut u i) d))
   \<and> list_all2 (\<lambda>old new. new = old \<or>
                   (j = Some (visitor_id old)
                    \<and> frozen_columns new = frozen_columns old
                    \<and> state_columns new = state_columns old))
       (visitors d) (old_rows d (p0_step e (Update v j g) d))"
proof -
  have create: "old_rows d (p0_step e (Create c f) d) = visitors d" for c f
    using p0_createVisitor_rows[of e c f d]
    by (metis old_rows_same old_rows_appended p0_step.simps(1))
  have checkout: "list_all2 (\<lambda>old new. new = old \<or>
                   (i = Some (visitor_id old)
                    \<and> frozen_columns new = frozen_columns old
                    \<and> visit_columns new = visit_columns old
                    \<and> status old = ''checked_in'' \<and> status new = ''checked_out''
                    \<and> checkout_time new = Some (getdate e)))
       (visitors d) (old_rows d (p0_step e (CheckOut u i) d))" for u i
  proof -
    consider "old_rows d (p0_step e (CheckOut u i) d) = visitors d"
      | n where "i = Some n" "old_rows d (p0_step e (CheckOut u i) d)
                    = map (p0_checked_out (getdate e) n) (visitors d)"
      using p0_checkout_rows[of e u i d]
      by (metis old_rows_same old_rows_mapped p0_step.simps(2))
    then show ?thesis
    proof cases
      case 1
      then show ?thesis by (simp add: list_all2_self)
    next
      case 2
      have "list_all2 (\<lambda>old new. new = old \<or>
                   (i = Some (visitor_id old)
                    \<and> frozen_columns new = frozen_columns old
                    \<and> visit_columns new = visit_columns old
                    \<and> status old = ''checked_in'' \<and> status new = ''checked_out''
                    \<and> checkout_time new = Some (getdate e)))
              (visitors d) (map (p0_checked_out (getdate e) n) (visitors d))"
        using p0_checked_out_row[of "getdate e" n] 2(1)
        by (auto intro!: list_all2_mapped)
      then show ?thesis
        by (simp only: 2(2))
    qed
  qed
  have update: "list_all2 (\<lambda>old new. new = old \<or>
                   (j = Some (visitor_id old)
                    \<and> frozen_columns new = frozen_columns old
                    \<and> state_columns new = state_columns old))
       (visitors d) (old_rows d (p0_step e (Update v j g) d))" for v j g
  proof -
    consider "old_rows d (p0_step e (Update v j g) d) = visitors d"
      | n old where "j = Some n" "old_rows d (p0_step e (Update v j g) d)
          = map (\<lambda>r. if visitor_id r = n then update_row (getdate e) g old r else r) (visitors d)"
      using p0_updateVisitor_rows[of e v j g d]
      by (metis old_rows_same old_rows_mapped p0_step.simps(3))
    then show ?thesis
    proof cases
      case 1
      then show ?thesis by (simp add: list_all2_self)
    next
      case 2
      have "list_all2 (\<lambda>old new. new = old \<or>
                   (j = Some (visitor_id old)
                    \<and> frozen_columns new = frozen_columns old
                    \<and> state_columns new = state_columns old))
              (visitors d)
              (map (\<lambda>r. if visitor_id r = n then update_row (getdate e) g old r else r)
                 (visitors d))"
        using update_row_keeps[of "getdate e" g old] 2(1)
        by (auto intro!: list_all2_mapped split: if_splits)
      then show ?thesis
        by (simp only: 2(2))
    qed
  qed
  have len: "length (visitors d) \<le> length (visitors (p0_step e op d))"
  proof (cases op)
    case (Create c f)
    then show ?thesis
      using p0_createVisitor_rows[of e c f d] by auto
  next
    case (CheckOut u i)
    then show ?thesis
      using p0_checkout_rows[of e u i d] by auto
  next
    case (Update v j g)
    then show ?thesis
      using p0_updateVisitor_rows[of e v j g d] by auto
  qed
  show ?thesis
    using len create checkout update by blast
qed

text \<open>
  The amended C6 at the desk: Jane Doe is checked out; a second check-out leaves her
  \<^verbatim>\<open>checkout_time\<close> as it was, and a check-in of another visitor leaves her row as it was.
\<close>

theorem p0_rows_are_kept_witness:
  "map state_columns (visitors (p0_step env0 (CheckOut desk (Some 1)) db1))
       = [(''checked_out'', Some 1704123000000)]
   \<and> map state_columns
       (visitors (p0_step (env0\<lparr>getdate := 1704126600000\<rparr>) (CheckOut desk (Some 1))
          (p0_step env0 (CheckOut desk (Some 1)) db1)))
       = [(''checked_out'', Some 1704123000000)]
   \<and> length (visitors db1) \<le> length (visitors (p0_step env0 (Create None jane_fields) db1))
   \<and> old_rows db1 (p0_step env0 (Create None jane_fields) db1) = visitors db1
   \<and> list_all2 (\<lambda>old new. new = old \<or>
                   (Some 1 = Some (visitor_id old)
                    \<and> frozen_columns new = frozen_columns old
                    \<and> visit_columns new = visit_columns old
                    \<and> status old = ''checked_in'' \<and> status new = ''checked_out''
                    \<and> checkout_time new = Some (getdate env0)))
       (visitors db1) (old_rows db1 (p0_step env0 (CheckOut desk (Some 1)) db1))"
proof -
  have one: "map state_columns (visitors (p0_step env0 (CheckOut desk (Some 1)) db1))
       = [(''checked_out'', Some 1704123000000)]"
    by code_simp
  have two: "map state_columns
       (visitors (p0_step (env0\<lparr>getdate := 1704126600000\<rparr>) (CheckOut desk (Some 1))
          (p0_step env0 (CheckOut desk (Some 1)) db1)))
       = [(''checked_out'', Some 1704123000000)]"
    by code_simp
  show ?thesis
    using p0_rows_are_kept[of db1 env0 "Create None jane_fields" None jane_fields "Some 1" desk]
          one two
    by blast
qed

section \<open>The total of a listing\<close>

lemma s8_countQuery_unchanged: "s8_countQuery q = s8_query_text q"
  by (simp add: s8_countQuery_def s8_query_text_def s8_select_text_def)

lemma s8_query_text_counts_nothing: "\<not> occurs ''COUNT(*)'' (s8_query_text q)"
  by (simp add: s8_query_text_def s8_select_text_def)

lemma s8_total_is_zero:
  "s8_listVisitors e q d = ListOk rows pg \<Longrightarrow> pg_total pg = 0"
  by (auto simp: s8_listVisitors_def total_count_of_def s8_countQuery_unchanged
        s8_query_text_counts_nothing list_json_def fetch_error_def Let_def
        split: option.splits list.splits if_splits)

lemma s8_no_match_is_an_error:
  "filter (s8_where e q) (visitors d) = [] \<Longrightarrow> s8_listVisitors e q d = fetch_error"
  by (simp add: s8_listVisitors_def total_count_of_def s8_countQuery_unchanged
        s8_query_text_counts_nothing)

lemma p0_total:
  assumes "p0_listVisitors e q d = ListOk rows pg"
  shows "pg_total pg = (if rows = [] then 0
                        else int (length (filter (p0_where e q) (visitors d))))"
  using assms
  by (auto simp: p0_listVisitors_def list_json_def fetch_error_def Let_def
        split: option.splits if_splits)

lemma fetch_pages:
  "0 < l \<Longrightarrow> concat (map (\<lambda>k. fetch (int k * l) l xs) [0..<n]) = take (n * nat l) xs"
proof (induction n)
  case 0
  then show ?case by simp
next
  case (Suc n)
  have off: "nat (int n * l) = n * nat l"
    using Suc.prems by (simp add: nat_mult_distrib)
  have "concat (map (\<lambda>k. fetch (int k * l) l xs) [0..<Suc n])
          = take (n * nat l) xs @ take (nat l) (drop (n * nat l) xs)"
    using Suc by (simp add: fetch_def off)
  also have "\<dots> = take (n * nat l + nat l) xs"
    by (simp only: take_add)
  also have "n * nat l + nat l = Suc n * nat l"
    by simp
  finally show ?case .
qed

text \<open>
  C7: the \<^verbatim>\<open>total\<close> of a listing is the number of records that match the filters.  In
  \<^verbatim>\<open>server8.js\<close> the text handed to \<^verbatim>\<open>query.replace\<close> as the pattern is the column list on
  one line, which does not occur in the query text, whose column list is broken over
  lines: the count query is the column query itself, its first row has no
  \<^verbatim>\<open>total_count\<close>, and the total becomes 0 (or the request fails, when nothing matches).
  At the desk one visitor matches and the listing says \<^verbatim>\<open>total: 0, pages: 0\<close>.  In
  \<^verbatim>\<open>part_000\<close> the total is read from the first row of the page, so a page beyond the
  last one reports 0 as well.
\<close>

theorem s8_list_total_is_zero:
  "length (filter (s8_where env0 first_page) (visitors db1)) = 1
   \<and> s8_countQuery first_page = s8_query_text first_page
   \<and> s8_listVisitors env0 first_page db1
       = ListOk [jane] \<lparr> pg_page = 1, pg_limit = 10, pg_total = 0, pg_pages = 0 \<rparr>
   \<and> s8_listVisitors env0 first_page db0 = fetch_error
   \<and> p0_listVisitors env0 first_page db1
       = ListOk [jane] \<lparr> pg_page = 1, pg_limit = 10, pg_total = 1, pg_pages = 1 \<rparr>
   \<and> p0_listVisitors env0 (first_page\<lparr>q_page := Some 2\<rparr>) db1
       = ListOk [] \<lparr> pg_page = 2, pg_limit = 10, pg_total = 0, pg_pages = 0 \<rparr>"
  by code_simp

section \<open>What a check-in stores and returns\<close>

lemma s8_createVisitor_valid:
  assumes "\<not> falsy (f_visitor_name f)" "\<not> falsy (f_host_email f)" "\<not> falsy (f_purpose f)"
    and "emailRegex (or_empty (f_host_email f))"
    and "toDataURL e (JSON_stringify (qrData e f)) = Some qr" "\<not> db_fails e 0"
  shows "\<exists>r. insert_visitor (getdate e)
                 \<lparr> iv_visitor_name = f_visitor_name f, iv_mobile = or_null (f_mobile f),
                   iv_host_employee = or_null (f_host_employee f),
                   iv_host_email = f_host_email f, iv_purpose = f_purpose f,
                   iv_photo_base64 = or_null (f_photo_base64 f),
                   iv_qr_code_data = Some (JSON_stringify (qrData e f)),
                   iv_created_by = Some (created_by_of u) \<rparr> d
                 = Some (fst (snd (s8_createVisitor e u f d)), r)
             \<and> s8_createVisitor e u f d
                 = (created_json e f qr r, fst (snd (s8_createVisitor e u f d)), dispatch_mail e)"
  using assms
  by (auto simp: s8_createVisitor_def insert_visitor_def falsy_def Let_def
           split: option.splits)

text \<open>
  C8: for every valid check-in input that the QR renderer and the store accept,
  \<^verbatim>\<open>POST /api/visitors\<close> of \<^verbatim>\<open>server8.js\<close> appends one row with status \<^verbatim>\<open>checked_in\<close> and
  no \<^verbatim>\<open>checkout_time\<close>; the \<^verbatim>\<open>id\<close> and the \<^verbatim>\<open>checkinTime\<close> of the response are the identity
  value and the clock reading that the store gave the row, whatever the client sent.
\<close>

theorem s8_createVisitor_persists_checked_in:
  assumes "\<not> falsy (f_visitor_name f)" "\<not> falsy (f_host_email f)" "\<not> falsy (f_purpose f)"
    and "emailRegex (or_empty (f_host_email f))"
    and "toDataURL e (JSON_stringify (qrData e f)) = Some qr" "\<not> db_fails e 0"
  shows "\<exists>r v. visitors (fst (snd (s8_createVisitor e u f d))) = visitors d @ [r]
             \<and> status r = ''checked_in'' \<and> checkout_time r = None
             \<and> visitor_id r = next_visitor_id d \<and> checkin_time r = getdate e
             \<and> fst (s8_createVisitor e u f d) = CreatedOk (next_visitor_id d) qr (Some v)
             \<and> cv_checkinTime v = getdate e"
proof -
  obtain r where ins: "insert_visitor (getdate e)
                 \<lparr> iv_visitor_name = f_visitor_name f, iv_mobile = or_null (f_mobile f),
                   iv_host_employee = or_null (f_host_employee f),
                   iv_host_email = f_host_email f, iv_purpose = f_purpose f,
                   iv_photo_base64 = or_null (f_photo_base64 f),
                   iv_qr_code_data = Some (JSON_stringify (qrData e f)),
                   iv_created_by = Some (created_by_of u) \<rparr> d
                 = Some (fst (snd (s8_createVisitor e u f d)), r)"
    and run: "s8_createVisitor e u f d
                 = (created_json e f qr r, fst (snd (s8_createVisitor e u f d)), dispatch_mail e)"
    using s8_createVisitor_valid[OF assms] by blast
  have "fst (s8_createVisitor e u f d) = created_json e f qr r"
    using run by (metis fst_conv)
  then show ?thesis
    using insert_visitor_row[OF ins] by (simp add: created_json_def)
qed

text \<open>The claim C8 at the desk: Jane Doe is entered into the empty register.\<close>

theorem s8_createVisitor_persists_checked_in_witness:
  "map status (visitors (fst (snd (s8_createVisitor env0 None jane_fields db0)))) = [''checked_in'']
   \<and> map checkout_time (visitors (fst (snd (s8_createVisitor env0 None jane_fields db0)))) = [None]
   \<and> map visitor_id (visitors (fst (snd (s8_createVisitor env0 None jane_fields db0)))) = [1]
   \<and> map checkin_time (visitors (fst (snd (s8_createVisitor env0 None jane_fields db0))))
       = [1704123000000]
   \<and> (\<exists>v. fst (s8_createVisitor env0 None jane_fields db0)
             = CreatedOk 1 ''data:image/png;base64,iVBORw0KGgo='' (Some v)
          \<and> cv_checkinTime v = 1704123000000)"
proof -
  have h: "\<not> falsy (f_visitor_name jane_fields)" "\<not> falsy (f_host_email jane_fields)"
    "\<not> falsy (f_purpose jane_fields)" "emailRegex (or_empty (f_host_email jane_fields))"
    "toDataURL env0 (JSON_stringify (qrData env0 jane_fields))
       = Some ''data:image/png;base64,iVBORw0KGgo=''"
    "\<not> db_fails env0 0"
    by (simp_all add: falsy_def or_empty_def emailRegex_def plain_def is_space_def desk_defs)
  show ?thesis
    using s8_createVisitor_persists_checked_in[OF h, of None db0]
    by (auto simp: desk_defs)
qed

section \<open>The mobile number\<close>

text \<open>
  C9, as the specification states it: every check-in request with a mobile number that is
  not exactly ten digits is rejected.  \<^verbatim>\<open>server8.js\<close> validates the required fields and
  the e-mail address only: a nine-digit number is accepted and stored.
\<close>

theorem s8_createVisitor_accepts_nine_digits:
  "fst (s8_createVisitor env0 None (jane_fields\<lparr>f_mobile := Some ''987654321''\<rparr>) db0)
     = CreatedOk 1 ''data:image/png;base64,iVBORw0KGgo=''
         (Some \<lparr> cv_name = ''Jane Doe'', cv_host = Some ''R. Host'',
                 cv_checkinTime = 1704123000000,
                 cv_visitorId = ''VIS-1704103200000-k3j9x2m1q'' \<rparr>)
   \<and> map mobile
        (visitors (fst (snd (s8_createVisitor env0 None (jane_fields\<lparr>f_mobile := Some ''987654321''\<rparr>) db0))))
     = [Some ''987654321'']"
  by code_simp

text \<open>
  C9, amended: in \<^verbatim>\<open>part_000\<close>, the iteration that validates the mobile number, a check-in
  request whose mobile number is present (not empty) and is not exactly ten characters, all
  of them digits, is rejected with status 400 and nothing is stored; a number of exactly ten
  digits passes the validation, so the request, when its other fields are valid and the
  QR renderer and the store accept it, is answered with the new record.
\<close>

theorem p0_createVisitor_mobile:
  assumes "f_mobile f = Some m" "m \<noteq> []"
  shows "(length m \<noteq> 10 \<or> \<not> list_all is_digit m \<longrightarrow>
            (\<exists>msg code. p0_createVisitor e u f d = (Err 400 msg code, d, NoMail)))
       \<and> (length m = 10 \<and> list_all is_digit m
            \<and> \<not> falsy (f_visitor_name f) \<and> \<not> falsy (f_host_email f) \<and> \<not> falsy (f_purpose f)
            \<and> emailRegex (or_empty (f_host_email f))
            \<and> toDataURL e (JSON_stringify (qrData e f)) = Some qr
            \<and> \<not> db_fails e 0 \<and> \<not> db_fails e 1 \<and> \<not> db_fails e 2 \<longrightarrow>
            (\<exists>v. fst (p0_createVisitor e u f d) = CreatedOk (next_visitor_id d) qr v))"
  using assms
  by (auto simp: p0_createVisitor_def mobile_regex_def falsy_def or_empty_def
        insert_visitor_def created_json_def Let_def split: option.splits)

text \<open>
  The amended C9 at the desk: nine digits, eleven digits and a letter among ten characters
  are refused, ten digits are accepted.
\<close>

theorem p0_createVisitor_mobile_witness:
  "(\<exists>msg code. p0_createVisitor env0 None (jane_fields\<lparr>f_mobile := Some ''987654321''\<rparr>) db0
       = (Err 400 msg code, db0, NoMail))
   \<and> (\<exists>msg code. p0_createVisitor env0 None (jane_fields\<lparr>f_mobile := Some ''98765432101''\<rparr>) db0
       = (Err 400 msg code, db0, NoMail))
   \<and> (\<exists>msg code. p0_createVisitor env0 None (jane_fields\<lparr>f_mobile := Some ''98765x3210''\<rparr>) db0
       = (Err 400 msg code, db0, NoMail))
   \<and> (\<exists>v. fst (p0_createVisitor env0 None (jane_fields\<lparr>f_mobile := Some ''9876543210''\<rparr>) db0)
       = CreatedOk 1 ''data:image/png;base64,iVBORw0KGgo='' v)"
proof -
  have nine: "length ''987654321'' \<noteq> 10 \<or> \<not> list_all is_digit ''987654321''" by simp
  have eleven: "length ''98765432101'' \<noteq> 10 \<or> \<not> list_all is_digit ''98765432101''" by simp
  have letter: "length ''98765x3210'' \<noteq> 10 \<or> \<not> list_all is_digit ''98765x3210''"
    by (simp add: is_digit_def)
  have ten: "length ''9876543210'' = 10 \<and> list_all is_digit ''9876543210''"
    by (simp add: is_digit_def)
  have rest: "\<not> falsy (f_visitor_name (jane_fields\<lparr>f_mobile := Some ''9876543210''\<rparr>))"
    "\<not> falsy (f_host_email (jane_fields\<lparr>f_mobile := Some ''9876543210''\<rparr>))"
    "\<not> falsy (f_purpose (jane_fields\<lparr>f_mobile := Some ''9876543210''\<rparr>))"
    "emailRegex (or_empty (f_host_email (jane_fields\<lparr>f_mobile := Some ''9876543210''\<rparr>)))"
    "toDataURL env0 (JSON_stringify (qrData env0 (jane_fields\<lparr>f_mobile := Some ''9876543210''\<rparr>)))
       = Some ''data:image/png;base64,iVBORw0KGgo=''"
    "\<not> db_fails env0 0" "\<not> db_fails env0 1" "\<not> db_fails env0 2"
    by (simp_all add: falsy_def or_empty_def emailRegex_def plain_def is_space_def desk_defs)
  show ?thesis
    using p0_createVisitor_mobile[of "jane_fields\<lparr>f_mobile := Some ''987654321''\<rparr>"
            "''987654321''" env0 None db0] nine
          p0_createVisitor_mobile[of "jane_fields\<lparr>f_mobile := Some ''98765432101''\<rparr>"
            "''98765432101''" env0 None db0] eleven
          p0_createVisitor_mobile[of "jane_fields\<lparr>f_mobile := Some ''98765x3210''\<rparr>"
            "''98765x3210''" env0 None db0] letter
          p0_createVisitor_mobile[of "jane_fields\<lparr>f_mobile := Some ''9876543210''\<rparr>"
            "''9876543210''" env0 None db0 "''data:image/png;base64,iVBORw0KGgo=''"] ten rest
    by (simp add: db0_def)
qed

section \<open>The check-out time of the response\<close>

text \<open>
  C10: on every successful check-out of \<^verbatim>\<open>server8.js\<close> and of \<^verbatim>\<open>part_000\<close>, the
  \<^verbatim>\<open>checkoutTime\<close> of the response is the application's \<^verbatim>\<open>new Date()\<close> taken for the
  response, written as ISO text; every row the request changed carries the store's
  \<^verbatim>\<open>GETDATE()\<close> as its \<^verbatim>\<open>checkout_time\<close>.  The response does not depend on the store's
  clock, and the stored rows do not depend on the application's.
\<close>

theorem checkout_response_time_is_fresh:
  "(\<forall>a b. fst (s8_checkout e i d) = CheckedOutOk a b \<longrightarrow>
            a = Some (toISOString (response_date e))
          \<and> (\<forall>r \<in> set (visitors (fst (snd (s8_checkout e i d)))).
               r \<in> set (visitors d) \<or> checkout_time r = Some (getdate e)))
   \<and> (\<forall>a b. fst (p0_checkout e u i d) = CheckedOutOk a b \<longrightarrow>
            a = Some (toISOString (response_date e))
          \<and> (\<forall>r \<in> set (visitors (fst (snd (p0_checkout e u i d)))).
               r \<in> set (visitors d) \<or> checkout_time r = Some (getdate e)))
   \<and> fst (s8_checkout (e\<lparr>getdate := g\<rparr>) i d) = fst (s8_checkout e i d)
   \<and> fst (p0_checkout (e\<lparr>getdate := g\<rparr>) u i d) = fst (p0_checkout e u i d)
   \<and> visitors (fst (snd (s8_checkout (e\<lparr>response_date := t\<rparr>) i d)))
       = visitors (fst (snd (s8_checkout e i d)))
   \<and> visitors (fst (snd (p0_checkout (e\<lparr>response_date := t\<rparr>) u i d)))
       = visitors (fst (snd (p0_checkout e u i d)))"
proof -
  have s8: "a = Some (toISOString (response_date e))
          \<and> (\<forall>r \<in> set (visitors (fst (snd (s8_checkout e i d)))).
               r \<in> set (visitors d) \<or> checkout_time r = Some (getdate e))"
    if "fst (s8_checkout e i d) = CheckedOutOk a b" for a b
    using that
    by (auto simp: s8_checkout_def s8_checkout_select_def s8_checkout_update_def
          checkout_conditional_def update_where_def checkout_row_def
          split: option.splits list.splits if_splits prod.splits sum.splits)
  have p0: "a = Some (toISOString (response_date e))
          \<and> (\<forall>r \<in> set (visitors (fst (snd (p0_checkout e u i d)))).
               r \<in> set (visitors d) \<or> checkout_time r = Some (getdate e))"
    if "fst (p0_checkout e u i d) = CheckedOutOk a b" for a b
    using that
    by (auto simp: p0_checkout_def checkout_conditional_p0_def update_where_def checkout_row_def
          logAudit_def Let_def
          split: option.splits list.splits if_splits prod.splits)
  have s8g: "fst (s8_checkout (e\<lparr>getdate := g\<rparr>) i d) = fst (s8_checkout e i d)"
    by (auto simp: s8_checkout_def s8_checkout_select_def s8_checkout_update_def
          checkout_conditional_def update_where_def checkout_mail_def dispatch_mail_def
          split: option.splits list.splits prod.splits sum.splits)
  have p0g: "fst (p0_checkout (e\<lparr>getdate := g\<rparr>) u i d) = fst (p0_checkout e u i d)"
    by (auto simp: p0_checkout_def checkout_conditional_p0_def update_where_def Let_def
          split: option.splits list.splits prod.splits)
  have s8t: "visitors (fst (snd (s8_checkout (e\<lparr>response_date := t\<rparr>) i d)))
       = visitors (fst (snd (s8_checkout e i d)))"
    by (auto simp: s8_checkout_def s8_checkout_select_def s8_checkout_update_def
          checkout_conditional_def update_where_def
          split: option.splits list.splits prod.splits sum.splits)
  have p0t: "visitors (fst (snd (p0_checkout (e\<lparr>response_date := t\<rparr>) u i d)))
       = visitors (fst (snd (p0_checkout e u i d)))"
    by (auto simp: p0_checkout_def checkout_conditional_p0_def update_where_def Let_def
          logAudit_def split: option.splits list.splits prod.splits)
  show ?thesis
    using s8 p0 s8g p0g s8t p0t by blast
qed

text \<open>
  The claim C10 at the desk: Jane Doe is checked out; the response carries the
  application's time, the row the store's.
\<close>

theorem checkout_response_time_is_fresh_witness:
  "fst (s8_checkout env0 (Some 1) db1)
     = CheckedOutOk (Some ''2024-01-01T11:00:00.250Z'')
         (Some \<lparr> ck_id = 1, ck_name = ''Jane Doe'', ck_host = Some ''R. Host'' \<rparr>)
   \<and> map checkout_time (visitors (fst (snd (s8_checkout env0 (Some 1) db1)))) = [Some 1704123000000]
   \<and> fst (p0_checkout env0 desk (Some 1) db1)
     = CheckedOutOk (Some ''2024-01-01T11:00:00.250Z'')
         (Some \<lparr> ck_id = 1, ck_name = ''Jane Doe'', ck_host = None \<rparr>)
   \<and> fst (s8_checkout (env0\<lparr>getdate := 0\<rparr>) (Some 1) db1) = fst (s8_checkout env0 (Some 1) db1)"
proof -
  have s8: "fst (s8_checkout env0 (Some 1) db1)
     = CheckedOutOk (Some ''2024-01-01T11:00:00.250Z'')
         (Some \<lparr> ck_id = 1, ck_name = ''Jane Doe'', ck_host = Some ''R. Host'' \<rparr>)"
    by code_simp
  have p0: "fst (p0_checkout env0 desk (Some 1) db1)
     = CheckedOutOk (Some ''2024-01-01T11:00:00.250Z'')
         (Some \<lparr> ck_id = 1, ck_name = ''Jane Doe'', ck_host = None \<rparr>)"
    by code_simp
  have rows: "map checkout_time (visitors (fst (snd (s8_checkout env0 (Some 1) db1))))
                = [Some 1704123000000]"
    by code_simp
  show ?thesis
    using checkout_response_time_is_fresh[of env0 "Some 1" db1 desk 0 0] s8 p0 rows
    by simp
qed

end
